theory Spec2Isabelle
  imports Main
begin

section \<open>Enumerations, errors and attributes\<close>

text \<open>
  The exceptions of \<^verbatim>\<open>gym_locm.exceptions\<close> that the engine raises or catches, and the
  built-in Python errors that escape from it.  \<^verbatim>\<open>InvalidCardError\<close> carries the
  instance id that was looked up.
\<close>

datatype error =
    EmptyDeckError
  | FullHandError
  | NotEnoughManaError
  | MalformedActionError
  | FullLaneError
  | InvalidCardError int
  | WardShieldError
  | GameIsEndedError
  | AttributeError
  | IndexError
  | ValueError

datatype Phase = DRAFT | BATTLE | ENDED

datatype PlayerOrder = FIRST | SECOND

datatype Lane = LEFT | RIGHT

datatype ActionType = PICK | SUMMON | ATTACK | USE | PASS

datatype Location =
    PLAYER_HAND
  | ENEMY_HAND
  | PLAYER_LEFT_LANE
  | PLAYER_RIGHT_LANE
  | ENEMY_LEFT_LANE
  | ENEMY_RIGHT_LANE

text \<open>The class of a card object: \<^verbatim>\<open>Creature\<close>, \<^verbatim>\<open>GreenItem\<close>, \<^verbatim>\<open>RedItem\<close>, \<^verbatim>\<open>BlueItem\<close>.\<close>

datatype CardClass = Creature | GreenItem | RedItem | BlueItem

text \<open>
  \<^verbatim>\<open>State.empty_copy\<close> and \<^verbatim>\<open>Player.empty_copy\<close> build objects without running
  \<^verbatim>\<open>__init__\<close>, so an attribute exists only once it has been assigned.  An attribute
  that \<^verbatim>\<open>clone\<close> does not assign is \<open>Missing\<close>, and reading it raises
  \<^verbatim>\<open>AttributeError\<close>.
\<close>

datatype 'a attr = Missing | Has 'a

fun opposing :: "PlayerOrder \<Rightarrow> PlayerOrder" where
  "opposing FIRST = SECOND"
| "opposing SECOND = FIRST"

section \<open>Cards\<close>

text \<open>
  A card object.  \<open>card_class\<close> is the Python class of the object, \<open>card_type\<close> the
  catalogue's type string.  The three flags are attributes of \<^verbatim>\<open>Creature\<close> objects only;
  the engine reads them on members of a lane (which \<^verbatim>\<open>_do_summon\<close> fills with creatures
  only) or after an \<^verbatim>\<open>isinstance(card, Creature)\<close> test.
\<close>

text \<open>The field \<open>abilities\<close> is the attribute \<^verbatim>\<open>keywords\<close> of the source, a set of one-letter codes.\<close>

record Card =
  card_id :: int
  instance_id :: "int option"
  name :: string
  card_type :: string
  card_class :: CardClass
  cost :: int
  attack :: int
  defense :: int
  abilities :: "char set"
  player_hp :: int
  enemy_hp :: int
  card_draw :: int
  card_text :: string
  is_dead :: bool
  can_attack :: bool
  has_attacked_this_turn :: bool

definition has_ability :: "Card \<Rightarrow> char \<Rightarrow> bool" where
  "has_ability c keyword = (keyword \<in> abilities c)"

text \<open>\<^verbatim>\<open>Card.make_copy\<close>: a new object with every field copied and the given instance id.\<close>

definition make_copy :: "Card \<Rightarrow> int option \<Rightarrow> Card" where
  "make_copy c iid = c\<lparr>instance_id := iid\<rparr>"

text \<open>\<^verbatim>\<open>Card.__eq__\<close>: two cards are equal iff both have an instance id and the ids agree.\<close>

definition card_eq :: "Card \<Rightarrow> Card \<Rightarrow> bool" where
  "card_eq a b = (instance_id a \<noteq> None \<and> instance_id b \<noteq> None \<and> instance_id a = instance_id b)"

definition remove_ability :: "Card \<Rightarrow> char \<Rightarrow> Card" where
  "remove_ability c ability = c\<lparr>abilities := abilities c - {ability}\<rparr>"

definition add_ability :: "Card \<Rightarrow> char \<Rightarrow> Card" where
  "add_ability c ability = c\<lparr>abilities := insert ability (abilities c)\<rparr>"

definition able_to_attack :: "Card \<Rightarrow> bool" where
  "able_to_attack c = (\<not> has_attacked_this_turn c \<and> (can_attack c \<or> has_ability c CHR ''C''))"

text \<open>
  \<^verbatim>\<open>Creature.damage\<close>.  The result is the returned amount or the raised
  \<^verbatim>\<open>WardShieldError\<close>, together with the creature as the call leaves it (the Ward is
  removed before the error is raised).
\<close>

definition Creature_damage :: "Card \<Rightarrow> int \<Rightarrow> bool \<Rightarrow> (error + int) \<times> Card" where
  "Creature_damage c amount lethal =
     (if amount \<le> 0 then (Inr 0, c)
      else if has_ability c CHR ''W'' then (Inl WardShieldError, remove_ability c CHR ''W'')
      else
        let c1 = c\<lparr>defense := defense c - amount\<rparr>;
            c2 = (if lethal \<or> defense c1 \<le> 0 then c1\<lparr>is_dead := True\<rparr> else c1)
        in (Inr amount, c2))"

section \<open>Actions\<close>

text \<open>
  An action names its origin and target by instance id (a draft pick by slot, a summon's
  target by lane number).  Once resolved, \<^verbatim>\<open>_act_on_battle\<close> stores the objects found on
  the action and appends it to the player's log.
\<close>

record Action =
  atype :: ActionType
  origin :: "int option"
  target :: "int option"

datatype Resolved = ResolvedNone | ResolvedInt int | ResolvedLane Lane | ResolvedCard Card

record LoggedAction = Action +
  resolved_origin :: "Card option"
  resolved_target :: Resolved

section \<open>Players\<close>

record Player =
  player_id :: PlayerOrder
  health :: int
  base_mana :: int
  bonus_mana :: int
  mana :: int
  next_rune :: int
  bonus_draw :: int
  last_drawn :: "int attr"
  deck :: "Card list"
  hand :: "Card list"
  lanes :: "Card list \<times> Card list"
  actions :: "LoggedAction list"

definition lane_of :: "Player \<Rightarrow> Lane \<Rightarrow> Card list" where
  "lane_of p l = (case l of LEFT \<Rightarrow> fst (lanes p) | RIGHT \<Rightarrow> snd (lanes p))"

definition set_lane :: "Player \<Rightarrow> Lane \<Rightarrow> Card list \<Rightarrow> Player" where
  "set_lane p l cs =
     (case l of LEFT \<Rightarrow> p\<lparr>lanes := (cs, snd (lanes p))\<rparr>
              | RIGHT \<Rightarrow> p\<lparr>lanes := (fst (lanes p), cs)\<rparr>)"

text \<open>
  \<^verbatim>\<open>Player.draw\<close>.  The loop body runs \<open>amount\<close> times (not at all when \<open>amount \<le> 0\<close>);
  the result is the raised error, if any, and the player as the call leaves it: cards
  drawn before the error stay in the hand.
\<close>

fun draw_loop :: "nat \<Rightarrow> Player \<Rightarrow> error option \<times> Player" where
  "draw_loop 0 p = (None, p)"
| "draw_loop (Suc n) p =
     (if length (deck p) = 0 then (Some EmptyDeckError, p)
      else if length (hand p) \<ge> 8 then (Some FullHandError, p)
      else draw_loop n (p\<lparr>hand := hand p @ [last (deck p)], deck := butlast (deck p)\<rparr>))"

definition draw :: "Player \<Rightarrow> int \<Rightarrow> error option \<times> Player" where
  "draw p amount = draw_loop (nat amount) p"

text \<open>The \<^verbatim>\<open>while\<close> loop of \<^verbatim>\<open>Player.damage\<close>.\<close>

function rune_loop :: "Player \<Rightarrow> Player" where
  "rune_loop p =
     (if health p \<le> next_rune p \<and> next_rune p > 0
      then rune_loop (p\<lparr>next_rune := next_rune p - 5, bonus_draw := bonus_draw p + 1\<rparr>)
      else p)"
  by pat_completeness auto
termination
  by (relation "measure (\<lambda>p. nat (next_rune p))") auto

declare rune_loop.simps [simp del]

definition Player_damage :: "Player \<Rightarrow> int \<Rightarrow> int \<times> Player" where
  "Player_damage p amount = (amount, rune_loop (p\<lparr>health := health p - amount\<rparr>))"

text \<open>\<^verbatim>\<open>Player.clone\<close>: \<^verbatim>\<open>last_drawn\<close> is not among the attributes it assigns.\<close>

definition Player_clone :: "Player \<Rightarrow> Player" where
  "Player_clone p =
     \<lparr> player_id = player_id p,
       health = health p,
       base_mana = base_mana p,
       bonus_mana = bonus_mana p,
       mana = mana p,
       next_rune = next_rune p,
       bonus_draw = bonus_draw p,
       last_drawn = Missing,
       deck = map (\<lambda>crd. make_copy crd (instance_id crd)) (deck p),
       hand = map (\<lambda>crd. make_copy crd (instance_id crd)) (hand p),
       lanes = (map (\<lambda>crd. make_copy crd (instance_id crd)) (fst (lanes p)),
                map (\<lambda>crd. make_copy crd (instance_id crd)) (snd (lanes p))),
       actions = actions p \<rparr>"

section \<open>Game state\<close>

text \<open>
  \<open>private_current_player\<close> is the attribute \<^verbatim>\<open>_current_player\<close>; the two caches are the
  attributes \<^verbatim>\<open>__available_actions\<close> and \<^verbatim>\<open>__action_mask\<close>.  \<open>np_random\<close> stands for the
  state of the random generator.  Containers hold card objects by value: in a state the
  engine builds, every card object of the battle lies in exactly one container.
\<close>

record State =
  instance_counter :: "int attr"
  np_random :: nat
  items :: "bool attr"
  phase :: Phase
  turn :: int
  was_last_action_invalid :: "bool attr"
  players :: "Player \<times> Player"
  private_current_player :: PlayerOrder
  available_actions_cache :: "Action list option"
  action_mask_cache :: "int list option attr"
  winner :: "PlayerOrder option"
  draft_cards :: "Card list list"

definition player_of :: "State \<Rightarrow> PlayerOrder \<Rightarrow> Player" where
  "player_of st who = (case who of FIRST \<Rightarrow> fst (players st) | SECOND \<Rightarrow> snd (players st))"

definition set_player :: "State \<Rightarrow> PlayerOrder \<Rightarrow> Player \<Rightarrow> State" where
  "set_player st who p =
     (case who of FIRST \<Rightarrow> st\<lparr>players := (p, snd (players st))\<rparr>
                | SECOND \<Rightarrow> st\<lparr>players := (fst (players st), p)\<rparr>)"

definition current_player :: "State \<Rightarrow> Player" where
  "current_player st = player_of st (private_current_player st)"

definition opposing_player :: "State \<Rightarrow> Player" where
  "opposing_player st = player_of st (opposing (private_current_player st))"

definition set_current_player :: "State \<Rightarrow> Player \<Rightarrow> State" where
  "set_current_player st p = set_player st (private_current_player st) p"

definition set_opposing_player :: "State \<Rightarrow> Player \<Rightarrow> State" where
  "set_opposing_player st p = set_player st (opposing (private_current_player st)) p"

subsection \<open>References to card objects\<close>

text \<open>
  While one action is resolved, the engine holds references to card objects.  A reference
  is the container the object lies in and its position there.
\<close>

type_synonym card_ref = "Location \<times> nat"

definition cards_at :: "State \<Rightarrow> Location \<Rightarrow> Card list" where
  "cards_at st loc =
     (case loc of
        PLAYER_HAND \<Rightarrow> hand (current_player st)
      | ENEMY_HAND \<Rightarrow> hand (opposing_player st)
      | PLAYER_LEFT_LANE \<Rightarrow> fst (lanes (current_player st))
      | PLAYER_RIGHT_LANE \<Rightarrow> snd (lanes (current_player st))
      | ENEMY_LEFT_LANE \<Rightarrow> fst (lanes (opposing_player st))
      | ENEMY_RIGHT_LANE \<Rightarrow> snd (lanes (opposing_player st)))"

definition set_cards_at :: "State \<Rightarrow> Location \<Rightarrow> Card list \<Rightarrow> State" where
  "set_cards_at st loc cs =
     (case loc of
        PLAYER_HAND \<Rightarrow> set_current_player st ((current_player st)\<lparr>hand := cs\<rparr>)
      | ENEMY_HAND \<Rightarrow> set_opposing_player st ((opposing_player st)\<lparr>hand := cs\<rparr>)
      | PLAYER_LEFT_LANE \<Rightarrow> set_current_player st (set_lane (current_player st) LEFT cs)
      | PLAYER_RIGHT_LANE \<Rightarrow> set_current_player st (set_lane (current_player st) RIGHT cs)
      | ENEMY_LEFT_LANE \<Rightarrow> set_opposing_player st (set_lane (opposing_player st) LEFT cs)
      | ENEMY_RIGHT_LANE \<Rightarrow> set_opposing_player st (set_lane (opposing_player st) RIGHT cs))"

definition card_at :: "State \<Rightarrow> card_ref \<Rightarrow> Card" where
  "card_at st r = cards_at st (fst r) ! snd r"

text \<open>An assignment to attributes of the referenced object.\<close>

definition update_card :: "State \<Rightarrow> card_ref \<Rightarrow> (Card \<Rightarrow> Card) \<Rightarrow> State" where
  "update_card st r f = set_cards_at st (fst r) ((cards_at st (fst r))[snd r := f (card_at st r)])"

fun first_index :: "('a \<Rightarrow> bool) \<Rightarrow> 'a list \<Rightarrow> nat option" where
  "first_index P [] = None"
| "first_index P (x # xs) = (if P x then Some 0 else map_option Suc (first_index P xs))"

text \<open>
  \<^verbatim>\<open>State._find_card\<close>: the containers are searched in the order the dictionary lists
  them, and the first card with the instance id is returned.
\<close>

fun find_in :: "State \<Rightarrow> int \<Rightarrow> Location list \<Rightarrow> error + card_ref" where
  "find_in st iid [] = Inl (InvalidCardError iid)"
| "find_in st iid (loc # locs) =
     (case first_index (\<lambda>crd. instance_id crd = Some iid) (cards_at st loc) of
        Some i \<Rightarrow> Inr (loc, i)
      | None \<Rightarrow> find_in st iid locs)"

definition find_card :: "State \<Rightarrow> int \<Rightarrow> error + card_ref" where
  "find_card st iid =
     find_in st iid [PLAYER_HAND, ENEMY_HAND, PLAYER_LEFT_LANE, PLAYER_RIGHT_LANE,
                     ENEMY_LEFT_LANE, ENEMY_RIGHT_LANE]"

text \<open>
  \<^verbatim>\<open>x in cards\<close> and \<^verbatim>\<open>cards.remove(x)\<close> for a card \<open>x\<close> that \<^verbatim>\<open>_find_card\<close> returned:
  \<open>x\<close> has an instance id, so a list member is \<open>x\<close> itself or equal to it exactly when
  \<^verbatim>\<open>__eq__\<close> holds.  \<open>None\<close> is in no list of cards.
\<close>

definition card_in :: "Card \<Rightarrow> Card list \<Rightarrow> bool" where
  "card_in x cs = list_ex (\<lambda>y. card_eq y x) cs"

definition index_of :: "Card \<Rightarrow> Card list \<Rightarrow> nat option" where
  "index_of x cs = first_index (\<lambda>y. card_eq y x) cs"

definition remove_at :: "nat \<Rightarrow> 'a list \<Rightarrow> 'a list" where
  "remove_at i xs = take i xs @ drop (Suc i) xs"

section \<open>Legal actions\<close>

text \<open>
  Modelled from the spec: \<^verbatim>\<open>gym_locm.helpers.has_enough_mana\<close> is not among the sources;
  the spec says that a card is affordable when its cost is at most the current mana.
\<close>

definition has_enough_mana :: "int \<Rightarrow> Card \<Rightarrow> bool" where
  "has_enough_mana available_mana crd = (cost crd \<le> available_mana)"

definition lane_number :: "Lane \<Rightarrow> int" where
  "lane_number l = (case l of LEFT \<Rightarrow> 0 | RIGHT \<Rightarrow> 1)"

definition draft_actions :: "Action list" where
  "draft_actions =
     [\<lparr>atype = PICK, origin = Some 0, target = None\<rparr>,
      \<lparr>atype = PICK, origin = Some 1, target = None\<rparr>,
      \<lparr>atype = PICK, origin = Some 2, target = None\<rparr>]"

text \<open>What the loop over the affordable hand cards appends to \<^verbatim>\<open>summon\<close> for one card.\<close>

definition summon_actions :: "Player \<Rightarrow> Card \<Rightarrow> Action list" where
  "summon_actions cp crd =
     (if card_class crd = Creature
      then concat (map (\<lambda>lane.
             if length (lane_of cp lane) < 3
             then [\<lparr>atype = SUMMON, origin = instance_id crd, target = Some (lane_number lane)\<rparr>]
             else []) [LEFT, RIGHT])
      else [])"

text \<open>What the same loop appends to \<^verbatim>\<open>use\<close> for one card.\<close>

definition use_actions :: "Player \<Rightarrow> Player \<Rightarrow> Card \<Rightarrow> Action list" where
  "use_actions cp op crd =
     (case card_class crd of
        Creature \<Rightarrow> []
      | GreenItem \<Rightarrow>
          map (\<lambda>friendly_creature.
                 \<lparr>atype = USE, origin = instance_id crd, target = instance_id friendly_creature\<rparr>)
              (lane_of cp LEFT @ lane_of cp RIGHT)
      | RedItem \<Rightarrow>
          map (\<lambda>enemy_creature.
                 \<lparr>atype = USE, origin = instance_id crd, target = instance_id enemy_creature\<rparr>)
              (lane_of op LEFT @ lane_of op RIGHT)
      | BlueItem \<Rightarrow>
          map (\<lambda>enemy_creature.
                 \<lparr>atype = USE, origin = instance_id crd, target = instance_id enemy_creature\<rparr>)
              (lane_of op LEFT @ lane_of op RIGHT)
          @ [\<lparr>atype = USE, origin = instance_id crd, target = None\<rparr>])"

text \<open>What the loop over the lanes appends to \<^verbatim>\<open>attack\<close> for one lane.\<close>

definition attack_actions :: "Player \<Rightarrow> Player \<Rightarrow> Lane \<Rightarrow> Action list" where
  "attack_actions cp op lane =
     (let guard_creatures = filter (\<lambda>c. has_ability c CHR ''G'') (lane_of op lane);
          valid_targets =
            (if guard_creatures = [] then map instance_id (lane_of op lane) @ [None]
             else map instance_id guard_creatures)
      in concat (map (\<lambda>friendly_creature.
                    map (\<lambda>valid_target.
                           \<lparr>atype = ATTACK, origin = instance_id friendly_creature,
                            target = valid_target\<rparr>) valid_targets)
                  (filter able_to_attack (lane_of cp lane))))"

definition battle_actions :: "State \<Rightarrow> Action list" where
  "battle_actions st =
     (let cp = current_player st;
          op = opposing_player st;
          affordable = filter (has_enough_mana (mana cp)) (hand cp);
          summon = concat (map (summon_actions cp) affordable);
          use = concat (map (use_actions cp op) affordable);
          attack = concat (map (attack_actions cp op) [LEFT, RIGHT]);
          available = summon @ attack @ use
      in if available = [] then [\<lparr>atype = PASS, origin = None, target = None\<rparr>]
         else available)"

text \<open>
  The property \<^verbatim>\<open>State.available_actions\<close>: the cached list if there is one, else the
  list computed for the phase, which is stored in the cache.
\<close>

definition available_actions :: "State \<Rightarrow> Action list \<times> State" where
  "available_actions st =
     (case available_actions_cache st of
        Some acts \<Rightarrow> (acts, st)
      | None \<Rightarrow>
          let acts = (case phase st of
                        DRAFT \<Rightarrow> draft_actions
                      | ENDED \<Rightarrow> []
                      | BATTLE \<Rightarrow> battle_actions st)
          in (acts, st\<lparr>available_actions_cache := Some acts\<rparr>))"

subsection \<open>The legality mask\<close>

text \<open>
  \<^verbatim>\<open>State.action_mask\<close> starts from 145 zeros and assigns 1 to one position after the
  other.  Each closure \<^verbatim>\<open>validate_...\<close> is modelled by the list of positions it assigns,
  in the order of the assignments; \<open>set_bits\<close> performs them, and an assignment outside
  the list raises \<^verbatim>\<open>IndexError\<close> as it does in Python.
\<close>

fun set_bits :: "nat list \<Rightarrow> int list \<Rightarrow> error + int list" where
  "set_bits [] action_mask = Inr action_mask"
| "set_bits (i # rest) action_mask =
     (if i < length action_mask then set_bits rest (action_mask[i := 1]) else Inl IndexError)"

definition validate_creature :: "Player \<Rightarrow> nat \<Rightarrow> nat list" where
  "validate_creature cp index =
     (if length (fst (lanes cp)) < 3 then [1 + index * 2] else [])
     @ (if length (snd (lanes cp)) < 3 then [1 + index * 2 + 1] else [])"

definition validate_green_item :: "Player \<Rightarrow> nat \<Rightarrow> nat list" where
  "validate_green_item cp index =
     map (\<lambda>i. 17 + index * 13 + 1 + i) [0..<length (fst (lanes cp))]
     @ map (\<lambda>i. 17 + index * 13 + 4 + i) [0..<length (snd (lanes cp))]"

definition validate_red_item :: "Player \<Rightarrow> nat \<Rightarrow> nat list" where
  "validate_red_item op index =
     map (\<lambda>i. 17 + index * 13 + 7 + i) [0..<length (fst (lanes op))]
     @ map (\<lambda>i. 17 + index * 13 + 10 + i) [0..<length (snd (lanes op))]"

definition validate_blue_item :: "Player \<Rightarrow> nat \<Rightarrow> nat list" where
  "validate_blue_item op index = validate_red_item op index @ [17 + index * 13]"

definition check_playability :: "Player \<Rightarrow> Player \<Rightarrow> CardClass \<Rightarrow> nat \<Rightarrow> nat list" where
  "check_playability cp op cls index =
     (case cls of
        Creature \<Rightarrow> validate_creature cp index
      | GreenItem \<Rightarrow> validate_green_item cp index
      | RedItem \<Rightarrow> validate_red_item op index
      | BlueItem \<Rightarrow> validate_blue_item op index)"

text \<open>The loop over the cards in hand.\<close>

definition hand_writes :: "Player \<Rightarrow> Player \<Rightarrow> nat list" where
  "hand_writes cp op =
     concat (map (\<lambda>(i, crd).
               if has_enough_mana (mana cp) crd then check_playability cp op (card_class crd) i
               else [])
             (enumerate 0 (hand cp)))"

text \<open>
  The body of the loop over the creatures of the board, for the creature in board slot
  \<open>i\<close> (its position in the lane plus the lane's offset).
\<close>

definition attack_writes :: "Player \<Rightarrow> Lane \<Rightarrow> nat \<Rightarrow> Card \<Rightarrow> nat list" where
  "attack_writes op lane_id i creature =
     (if able_to_attack creature
      then
        let guards = map fst (filter (\<lambda>(j, enemy_creature). has_ability enemy_creature CHR ''G'')
                                (enumerate 0 (lane_of op lane_id)))
        in if guards \<noteq> [] then map (\<lambda>j. 121 + i * 4 + 1 + j) guards
           else (121 + i * 4) # map (\<lambda>j. 121 + i * 4 + 1 + j) [0..<length (lane_of op lane_id)]
      else [])"

text \<open>The loop over the creatures of one lane of the board, with its offset.\<close>

definition lane_writes :: "Player \<Rightarrow> Player \<Rightarrow> nat \<Rightarrow> Lane \<Rightarrow> nat list" where
  "lane_writes cp op offset lane_id =
     concat (map (\<lambda>(i0, creature). attack_writes op lane_id (i0 + offset) creature)
             (enumerate 0 (lane_of cp lane_id)))"

definition mask_writes :: "State \<Rightarrow> nat list" where
  "mask_writes st =
     (let cp = current_player st; op = opposing_player st
      in 0 # hand_writes cp op @ lane_writes cp op 0 LEFT @ lane_writes cp op 3 RIGHT)"

definition action_mask :: "State \<Rightarrow> error + (int list \<times> State)" where
  "action_mask st =
     (case action_mask_cache st of
        Missing \<Rightarrow> Inl AttributeError
      | Has (Some cached) \<Rightarrow> Inr (cached, st)
      | Has None \<Rightarrow>
          (case phase st of
             DRAFT \<Rightarrow> Inr ([1, 1, 1], st)
           | ENDED \<Rightarrow>
               (case items st of
                  Missing \<Rightarrow> Inl AttributeError
                | Has b \<Rightarrow> Inr (replicate (if b then 145 else 41) 0, st))
           | BATTLE \<Rightarrow>
               (case set_bits (mask_writes st) (replicate 145 0) of
                  Inl e \<Rightarrow> Inl e
                | Inr m \<Rightarrow>
                    (case items st of
                       Missing \<Rightarrow> Inl AttributeError
                     | Has b \<Rightarrow>
                         let m' = (if \<not> b then take 17 m @ drop (length m - 24) m else m)
                         in Inr (m', st\<lparr>action_mask_cache := Has (Some m')\<rparr>)))))"

section \<open>Battle actions\<close>

text \<open>
  Each \<^verbatim>\<open>_do_...\<close> method returns the raised error, if any, and the state as the call
  leaves it: what it has assigned before raising stays assigned.  The origin is \<open>None\<close>
  when the action names no origin.
\<close>

text \<open>
  \<^verbatim>\<open>State._do_summon\<close>.  The origin was found by \<^verbatim>\<open>_find_card\<close>, which searches the
  current player's hand first, so a hand card equal to the origin is the origin itself.
\<close>

definition do_summon :: "State \<Rightarrow> card_ref option \<Rightarrow> Lane option \<Rightarrow> error option \<times> State" where
  "do_summon st origin_ref target_lane =
     (case origin_ref of
        None \<Rightarrow> (Some AttributeError, st)
      | Some r \<Rightarrow>
          let cur = current_player st; opp = opposing_player st; orig = card_at st r in
          if cost orig > mana cur then (Some NotEnoughManaError, st)
          else if card_class orig \<noteq> Creature then (Some MalformedActionError, st)
          else (case target_lane of
                  None \<Rightarrow> (Some MalformedActionError, st)
                | Some lane \<Rightarrow>
                    if length (lane_of cur lane) \<ge> 3 then (Some FullLaneError, st)
                    else (case index_of orig (hand cur) of
                            None \<Rightarrow> (Some MalformedActionError, st)
                          | Some k \<Rightarrow>
                              let orig1 = orig\<lparr>can_attack := False\<rparr>;
                                  p1 = cur\<lparr>hand := remove_at k (hand cur)\<rparr>;
                                  p2 = set_lane p1 lane (lane_of p1 lane @ [orig1]);
                                  p3 = p2\<lparr>bonus_draw := bonus_draw p2 + card_draw orig1\<rparr>;
                                  p4 = p3\<lparr>health := health p3 + player_hp orig1\<rparr>;
                                  q1 = opp\<lparr>health := health opp + enemy_hp orig1\<rparr>;
                                  p5 = p4\<lparr>mana := mana p4 - cost orig1\<rparr>
                              in (None, set_opposing_player (set_current_player st p5) q1))))"

text \<open>The last two statements of \<^verbatim>\<open>_do_attack\<close>: the Drain heal and the attacked flag.\<close>

definition attack_finish :: "State \<Rightarrow> card_ref \<Rightarrow> int \<Rightarrow> error option \<times> State" where
  "attack_finish st r damage_dealt =
     (let st1 = (if CHR ''D'' \<in> abilities (card_at st r)
                 then set_current_player st
                        ((current_player st)\<lparr>health := health (current_player st) + damage_dealt\<rparr>)
                 else st)
      in (None, update_card st1 r (\<lambda>c. c\<lparr>has_attacked_this_turn := True\<rparr>)))"

text \<open>\<^verbatim>\<open>State._do_attack\<close>.\<close>

definition do_attack :: "State \<Rightarrow> card_ref option \<Rightarrow> card_ref option \<Rightarrow> error option \<times> State" where
  "do_attack st origin_ref target_ref =
     (case origin_ref of
        None \<Rightarrow> (Some MalformedActionError, st)
      | Some r \<Rightarrow>
          let cur = current_player st; opp = opposing_player st; orig = card_at st r in
          if card_class orig \<noteq> Creature then (Some MalformedActionError, st)
          else if \<not> card_in orig (lane_of cur LEFT) \<and> \<not> card_in orig (lane_of cur RIGHT)
          then (Some MalformedActionError, st)
          else
            let origin_lane = (if card_in orig (lane_of cur LEFT) then LEFT else RIGHT);
                guard_creatures = filter (\<lambda>c. has_ability c CHR ''G'') (lane_of opp origin_lane);
                target_valid =
                  (case target_ref of
                     None \<Rightarrow> guard_creatures = []
                   | Some t \<Rightarrow>
                       card_in (card_at st t)
                         (if length guard_creatures > 0 then guard_creatures
                          else lane_of opp origin_lane))
            in if \<not> target_valid then (Some MalformedActionError, st)
               else if \<not> able_to_attack orig then (Some MalformedActionError, st)
               else (case target_ref of
                       None \<Rightarrow>
                         let (damage_dealt, q1) = Player_damage opp (attack orig)
                         in attack_finish (set_opposing_player st q1) r damage_dealt
                     | Some t \<Rightarrow>
                         if card_class (card_at st t) \<noteq> Creature then (Some MalformedActionError, st)
                         else
                           let target_defense = defense (card_at st t);
                               (res1, tc1) = Creature_damage (card_at st t) (attack orig)
                                               (has_ability orig CHR ''L'');
                               damage_dealt1 = (case res1 of Inl e \<Rightarrow> 0 | Inr d \<Rightarrow> d);
                               st1 = update_card st t (\<lambda>c. tc1);
                               (res2, oc1) = Creature_damage (card_at st1 r) (attack (card_at st1 t))
                                               (has_ability (card_at st1 t) CHR ''L'');
                               damage_dealt = (case res2 of Inl e \<Rightarrow> 0 | Inr d \<Rightarrow> damage_dealt1);
                               st2 = update_card st1 r (\<lambda>c. oc1);
                               excess_damage = damage_dealt - target_defense;
                               st3 = (if CHR ''B'' \<in> abilities (card_at st2 r) \<and> excess_damage > 0
                                      then set_opposing_player st2
                                             (snd (Player_damage (opposing_player st2) excess_damage))
                                      else st2)
                           in attack_finish st3 r damage_dealt))"

text \<open>
  The statements the three item branches of \<^verbatim>\<open>_do_use\<close> share: the bonus draw and the
  two health deltas of the item, and the final debit of its cost.
\<close>

definition play_effects :: "State \<Rightarrow> Card \<Rightarrow> State" where
  "play_effects st orig =
     (let cur = current_player st;
          p1 = cur\<lparr>bonus_draw := bonus_draw cur + card_draw orig\<rparr>;
          p2 = p1\<lparr>health := health p1 + player_hp orig\<rparr>;
          st1 = set_current_player st p2;
          opp = opposing_player st1
      in set_opposing_player st1 (opp\<lparr>health := health opp + enemy_hp orig\<rparr>))"

definition pay_cost :: "State \<Rightarrow> Card \<Rightarrow> State" where
  "pay_cost st orig =
     set_current_player st ((current_player st)\<lparr>mana := mana (current_player st) - cost orig\<rparr>)"

text \<open>What a green item does to its target.\<close>

definition green_effect :: "Card \<Rightarrow> Card \<Rightarrow> Card" where
  "green_effect orig tc =
     (let t1 = tc\<lparr>attack := attack tc + attack orig\<rparr>;
          t2 = t1\<lparr>defense := defense t1 + defense orig\<rparr>;
          t3 = t2\<lparr>abilities := abilities t2 \<union> abilities orig\<rparr>
      in if defense t3 \<le> 0 then t3\<lparr>is_dead := True\<rparr> else t3)"

text \<open>What a red item, or a blue item with a creature target, does to its target.\<close>

definition red_effect :: "Card \<Rightarrow> Card \<Rightarrow> Card" where
  "red_effect orig tc =
     (let t1 = tc\<lparr>attack := attack tc + attack orig\<rparr>;
          t2 = t1\<lparr>abilities := abilities t1 - abilities orig\<rparr>;
          t3 = snd (Creature_damage t2 (- defense orig) False)
      in if defense t3 \<le> 0 then t3\<lparr>is_dead := True\<rparr> else t3)"

text \<open>
  Removing the origin from the hand moves the hand cards behind it one position down; the
  reference to the target follows its object.
\<close>

definition shift_ref :: "nat \<Rightarrow> card_ref \<Rightarrow> card_ref" where
  "shift_ref k r = (if fst r = PLAYER_HAND \<and> snd r > k then (fst r, snd r - 1) else r)"

text \<open>
  \<^verbatim>\<open>State._do_use\<close>.  After the second test the target is \<open>None\<close> or a creature, so the
  last \<^verbatim>\<open>else\<close> of the blue branch is never reached.  A target that is the origin itself
  is a creature, and ends in the branch for a card that is not an item.
\<close>

definition do_use :: "State \<Rightarrow> card_ref option \<Rightarrow> card_ref option \<Rightarrow> error option \<times> State" where
  "do_use st origin_ref target_ref =
     (case origin_ref of
        None \<Rightarrow> (Some AttributeError, st)
      | Some r \<Rightarrow>
          let orig = card_at st r in
          if cost orig > mana (current_player st) then (Some NotEnoughManaError, st)
          else if (case target_ref of None \<Rightarrow> False
                   | Some t \<Rightarrow> card_class (card_at st t) \<noteq> Creature)
          then (Some MalformedActionError, st)
          else (case index_of orig (hand (current_player st)) of
                  None \<Rightarrow> (Some MalformedActionError, st)
                | Some k \<Rightarrow>
                    let cur = current_player st;
                        st1 = set_current_player st (cur\<lparr>hand := remove_at k (hand cur)\<rparr>);
                        target1 = map_option (shift_ref k) target_ref;
                        cur1 = current_player st1;
                        opp1 = opposing_player st1
                    in (case card_class orig of
                          GreenItem \<Rightarrow>
                            (case target1 of
                               None \<Rightarrow> (Some MalformedActionError, st1)
                             | Some t \<Rightarrow>
                                 if \<not> (card_in (card_at st1 t) (lane_of cur1 LEFT)
                                        \<or> card_in (card_at st1 t) (lane_of cur1 RIGHT))
                                 then (Some MalformedActionError, st1)
                                 else (None, pay_cost (play_effects
                                               (update_card st1 t (green_effect orig)) orig) orig))
                        | RedItem \<Rightarrow>
                            (case target1 of
                               None \<Rightarrow> (Some MalformedActionError, st1)
                             | Some t \<Rightarrow>
                                 if \<not> (card_in (card_at st1 t) (lane_of opp1 LEFT)
                                        \<or> card_in (card_at st1 t) (lane_of opp1 RIGHT))
                                 then (Some MalformedActionError, st1)
                                 else (None, pay_cost (play_effects
                                               (update_card st1 t (red_effect orig)) orig) orig))
                        | BlueItem \<Rightarrow>
                            (case target1 of
                               None \<Rightarrow>
                                 (None, pay_cost (play_effects
                                          (set_opposing_player st1
                                             (snd (Player_damage opp1 (- defense orig)))) orig) orig)
                             | Some t \<Rightarrow>
                                 if \<not> (card_in (card_at st1 t) (lane_of opp1 LEFT)
                                        \<or> card_in (card_at st1 t) (lane_of opp1 RIGHT))
                                 then (Some MalformedActionError, st1)
                                 else (None, pay_cost (play_effects
                                               (update_card st1 t (red_effect orig)) orig) orig))
                        | Creature \<Rightarrow> (Some MalformedActionError, st1))))"

subsection \<open>Dispatch, sweep of the dead and end of the game\<close>

text \<open>\<^verbatim>\<open>Lane(target)\<close>: the lane with that number, or \<^verbatim>\<open>ValueError\<close>.\<close>

definition to_Lane :: "int \<Rightarrow> error + Lane" where
  "to_Lane n = (if n = 0 then Inr LEFT else if n = 1 then Inr RIGHT else Inl ValueError)"

definition resolve_card :: "State \<Rightarrow> int option \<Rightarrow> error + card_ref option" where
  "resolve_card st i =
     (case i of
        None \<Rightarrow> Inr None
      | Some n \<Rightarrow> (case find_card st n of Inl e \<Rightarrow> Inl e | Inr r \<Rightarrow> Inr (Some r)))"

text \<open>
  The action as it is appended to the log.  \<^verbatim>\<open>resolved_origin\<close> and
  \<^verbatim>\<open>resolved_target\<close> are the objects found before the action was carried out; the engine
  later reads nothing but the card number of \<^verbatim>\<open>resolved_origin\<close>, which no action changes.
\<close>

definition logged :: "Action \<Rightarrow> Card option \<Rightarrow> Resolved \<Rightarrow> LoggedAction" where
  "logged action ro rt =
     \<lparr>atype = atype action, origin = origin action, target = target action,
      resolved_origin = ro, resolved_target = rt\<rparr>"

definition append_action :: "State \<Rightarrow> LoggedAction \<Rightarrow> State" where
  "append_action st a =
     set_current_player st ((current_player st)\<lparr>actions := actions (current_player st) @ [a]\<rparr>)"

definition resolved_card :: "State \<Rightarrow> card_ref option \<Rightarrow> Resolved" where
  "resolved_card st r = (case r of None \<Rightarrow> ResolvedNone | Some t \<Rightarrow> ResolvedCard (card_at st t))"

text \<open>
  The body of the \<^verbatim>\<open>try\<close> statement of \<^verbatim>\<open>_act_on_battle\<close>: the raised error, if any,
  and the state as the body leaves it.
\<close>

definition try_action :: "State \<Rightarrow> Action \<Rightarrow> error option \<times> State" where
  "try_action st action =
     (case resolve_card st (origin action) of
        Inl e \<Rightarrow> (Some e, st)
      | Inr origin_ref \<Rightarrow>
          let ro = map_option (card_at st) origin_ref in
          (case atype action of
             SUMMON \<Rightarrow>
               (case (case target action of None \<Rightarrow> Inr None
                      | Some n \<Rightarrow> (case to_Lane n of Inl e \<Rightarrow> Inl e | Inr l \<Rightarrow> Inr (Some l))) of
                  Inl e \<Rightarrow> (Some e, st)
                | Inr target_lane \<Rightarrow>
                    (case do_summon st origin_ref target_lane of
                       (Some e, st1) \<Rightarrow> (Some e, st1)
                     | (None, st1) \<Rightarrow>
                         (None, append_action st1
                            (logged action ro
                               (case target_lane of None \<Rightarrow> ResolvedNone
                                | Some l \<Rightarrow> ResolvedLane l)))))
           | ATTACK \<Rightarrow>
               (case resolve_card st (target action) of
                  Inl e \<Rightarrow> (Some e, st)
                | Inr target_ref \<Rightarrow>
                    (case do_attack st origin_ref target_ref of
                       (Some e, st1) \<Rightarrow> (Some e, st1)
                     | (None, st1) \<Rightarrow>
                         (None, append_action st1 (logged action ro (resolved_card st target_ref)))))
           | USE \<Rightarrow>
               (case resolve_card st (target action) of
                  Inl e \<Rightarrow> (Some e, st)
                | Inr target_ref \<Rightarrow>
                    (case do_use st origin_ref target_ref of
                       (Some e, st1) \<Rightarrow> (Some e, st1)
                     | (None, st1) \<Rightarrow>
                         (None, append_action st1 (logged action ro (resolved_card st target_ref)))))
           | PASS \<Rightarrow>
               (None, append_action st
                  (logged action ro
                     (case target action of None \<Rightarrow> ResolvedNone | Some n \<Rightarrow> ResolvedInt n)))
           | PICK \<Rightarrow> (Some MalformedActionError, st)))"

text \<open>The errors that the \<^verbatim>\<open>except\<close> clause of \<^verbatim>\<open>_act_on_battle\<close> catches.\<close>

fun caught :: "error \<Rightarrow> bool" where
  "caught NotEnoughManaError = True"
| "caught MalformedActionError = True"
| "caught FullLaneError = True"
| "caught (InvalidCardError i) = True"
| "caught e = False"

text \<open>
  \<^verbatim>\<open>lane.remove(creature)\<close> for the creature at position \<open>i\<close>: the first member that is
  the creature or equal to it goes.
\<close>

definition remove_obj :: "Card list \<Rightarrow> nat \<Rightarrow> Card list" where
  "remove_obj lane i =
     (case index_of (lane ! i) (take i lane) of
        Some j \<Rightarrow> remove_at j lane
      | None \<Rightarrow> remove_at i lane)"

text \<open>
  The loop \<^verbatim>\<open>for creature in lane: if creature.is_dead: lane.remove(creature)\<close>.  Python
  iterates by position while the list shrinks under it.
\<close>

function sweep_loop :: "Card list \<Rightarrow> nat \<Rightarrow> Card list" where
  "sweep_loop lane i =
     (if i < length lane
      then (if is_dead (lane ! i) then sweep_loop (remove_obj lane i) (Suc i)
            else sweep_loop lane (Suc i))
      else lane)"
  by pat_completeness auto
termination
  by (relation "measure (\<lambda>(lane, i). length lane - i)")
     (auto simp: remove_obj_def remove_at_def split: option.splits)

declare sweep_loop.simps [simp del]

definition sweep_player :: "Player \<Rightarrow> Player" where
  "sweep_player p = p\<lparr>lanes := (sweep_loop (fst (lanes p)) 0, sweep_loop (snd (lanes p)) 0)\<rparr>"

definition check_end :: "State \<Rightarrow> State" where
  "check_end st =
     (if health (fst (players st)) \<le> 0 then st\<lparr>phase := ENDED, winner := Some SECOND\<rparr>
      else if health (snd (players st)) \<le> 0 then st\<lparr>phase := ENDED, winner := Some FIRST\<rparr>
      else st)"

text \<open>
  \<^verbatim>\<open>State._act_on_battle\<close>.  An error that the \<^verbatim>\<open>except\<close> clause does not catch leaves
  the method.
\<close>

definition act_on_battle :: "State \<Rightarrow> Action \<Rightarrow> error + State" where
  "act_on_battle st action =
     (case (case try_action st action of
              (None, st1) \<Rightarrow> Inr st1
            | (Some e, st1) \<Rightarrow>
                if caught e then Inr (st1\<lparr>was_last_action_invalid := Has True\<rparr>) else Inl e) of
        Inl e \<Rightarrow> Inl e
      | Inr st2 \<Rightarrow>
          Inr (check_end
                 (st2\<lparr>players := (sweep_player (fst (players st2)),
                                  sweep_player (snd (players st2)))\<rparr>)))"

section \<open>Turns\<close>

text \<open>A Python list read at an index; a negative index counts from the end.\<close>

definition py_get :: "'a list \<Rightarrow> int \<Rightarrow> error + 'a" where
  "py_get xs i =
     (if 0 \<le> i \<and> i < int (length xs) then Inr (xs ! nat i)
      else if i < 0 \<and> - int (length xs) \<le> i then Inr (xs ! nat (int (length xs) + i))
      else Inl IndexError)"

definition next_turn :: "State \<Rightarrow> bool \<times> State" where
  "next_turn st =
     (if private_current_player st = FIRST then (False, st\<lparr>private_current_player := SECOND\<rparr>)
      else
        let st1 = st\<lparr>private_current_player := FIRST, turn := turn st + 1\<rparr>
        in (True, if turn st1 > 30 \<and> phase st1 = DRAFT then st1\<lparr>phase := BATTLE, turn := 1\<rparr>
                  else st1))"

definition new_draft_turn :: "State \<Rightarrow> error + State" where
  "new_draft_turn st =
     (case py_get (draft_cards st) (turn st - 1) of
        Inl e \<Rightarrow> Inl e
      | Inr current_draft_choices \<Rightarrow>
          Inr (st\<lparr>players := ((fst (players st))\<lparr>hand := current_draft_choices\<rparr>,
                               (snd (players st))\<lparr>hand := current_draft_choices\<rparr>)\<rparr>))"

definition act_on_draft :: "State \<Rightarrow> Action \<Rightarrow> error + State" where
  "act_on_draft st action =
     (let chosen_index = (case origin action of Some i \<Rightarrow> i | None \<Rightarrow> 0) in
      case py_get (hand (current_player st)) chosen_index of
        Inl e \<Rightarrow> Inl e
      | Inr crd \<Rightarrow>
          Inr (set_current_player st
                 ((current_player st)\<lparr>deck := deck (current_player st) @ [crd]\<rparr>)))"

text \<open>
  The loop of \<^verbatim>\<open>_prepare_for_battle\<close> over the zipped decks: every card is copied under
  the next instance id.  The result is the two new lists and the counter.
\<close>

fun instantiate :: "int \<Rightarrow> (Card \<times> Card) list \<Rightarrow> Card list \<times> Card list \<times> int" where
  "instantiate n [] = ([], [], n)"
| "instantiate n ((card1, card2) # rest) =
     (let (d1, d2, n') = instantiate (n + 2) rest
      in (make_copy card1 (Some (n + 1)) # d1, make_copy card2 (Some (n + 2)) # d2, n'))"

text \<open>
  \<^verbatim>\<open>State._prepare_for_battle\<close>.  \<open>shuffle\<close> stands for \<^verbatim>\<open>np_random.shuffle\<close>: from the
  generator's state and a list it gives the shuffled list and the generator's next state.
  The errors of \<^verbatim>\<open>draw\<close> are not caught here.
\<close>

definition prepare_for_battle ::
  "(nat \<Rightarrow> Card list \<Rightarrow> Card list \<times> nat) \<Rightarrow> State \<Rightarrow> error + State" where
  "prepare_for_battle shuffle st =
     (let (deck1, g1) = shuffle (np_random st) (deck (fst (players st)));
          (deck2, g2) = shuffle g1 (deck (snd (players st)));
          pairs = zip deck1 deck2
      in case (if pairs = [] then Inr ([], [], instance_counter st)
               else (case instance_counter st of
                       Missing \<Rightarrow> Inl AttributeError
                     | Has n \<Rightarrow> (let (d1, d2, n') = instantiate n pairs in Inr (d1, d2, Has n')))) of
           Inl e \<Rightarrow> Inl e
         | Inr (d1, d2, counter) \<Rightarrow>
             let p1 = (fst (players st))\<lparr>hand := [], lanes := ([], []), deck := rev d1\<rparr>;
                 p2 = (snd (players st))\<lparr>hand := [], lanes := ([], []), deck := rev d2\<rparr>
             in (case draw p1 4 of
                   (Some e, p1') \<Rightarrow> Inl e
                 | (None, p1') \<Rightarrow>
                     (case draw p2 4 of
                        (Some e, p2') \<Rightarrow> Inl e
                      | (None, p2') \<Rightarrow>
                          (case draw (p2'\<lparr>base_mana := 0\<rparr>) 1 of
                             (Some e, p2'') \<Rightarrow> Inl e
                           | (None, p2'') \<Rightarrow>
                               Inr (st\<lparr>np_random := g2, instance_counter := counter,
                                       players := (p1'\<lparr>base_mana := 0\<rparr>,
                                                   p2''\<lparr>bonus_mana := 1\<rparr>)\<rparr>)))))"

text \<open>\<^verbatim>\<open>State._new_battle_turn\<close>.\<close>

definition wake :: "Card \<Rightarrow> Card" where
  "wake creature = creature\<lparr>can_attack := True, has_attacked_this_turn := False\<rparr>"

definition new_battle_turn :: "State \<Rightarrow> State" where
  "new_battle_turn st =
     (let p0 = current_player st;
          p1 = p0\<lparr>lanes := (map wake (fst (lanes p0)), map wake (snd (lanes p0)))\<rparr>;
          p2 = (if base_mana p1 > 0 \<and> mana p1 = 0 then p1\<lparr>bonus_mana := 0\<rparr> else p1);
          p3 = (if base_mana p2 < 12 then p2\<lparr>base_mana := base_mana p2 + 1\<rparr> else p2);
          p4 = p3\<lparr>mana := base_mana p3 + bonus_mana p3\<rparr>;
          amount_in_hand = int (length (hand p4));
          amount_to_draw = 1 + bonus_draw p4;
          p5 = (if turn st > 50 then p4\<lparr>deck := []\<rparr> else p4);
          p6 = (case draw p5 amount_to_draw of
                  (Some EmptyDeckError, p) \<Rightarrow> snd (Player_damage p (health p - next_rune p))
                | (r, p) \<Rightarrow> p);
          p7 = p6\<lparr>bonus_draw := 0\<rparr>;
          p8 = p7\<lparr>last_drawn := Has (int (length (hand p7)) - amount_in_hand)\<rparr>
      in set_current_player st p8)"

section \<open>Applying an action\<close>

text \<open>
  \<^verbatim>\<open>State.act\<close>.  No branch is taken when the phase is \<^verbatim>\<open>ENDED\<close>: the flag and the two
  caches are reset and nothing else happens.
\<close>

definition act ::
  "(nat \<Rightarrow> Card list \<Rightarrow> Card list \<times> nat) \<Rightarrow> State \<Rightarrow> Action \<Rightarrow> error + State" where
  "act shuffle st action =
     (let st0 = st\<lparr>was_last_action_invalid := Has False\<rparr> in
      case (case phase st0 of
              DRAFT \<Rightarrow>
                (case act_on_draft st0 action of
                   Inl e \<Rightarrow> Inl e
                 | Inr st1 \<Rightarrow>
                     let st2 = snd (next_turn st1) in
                     (case phase st2 of
                        DRAFT \<Rightarrow> new_draft_turn st2
                      | BATTLE \<Rightarrow>
                          (case prepare_for_battle shuffle st2 of
                             Inl e \<Rightarrow> Inl e
                           | Inr st3 \<Rightarrow> Inr (new_battle_turn st3))
                      | ENDED \<Rightarrow> Inr st2))
            | BATTLE \<Rightarrow>
                (case act_on_battle st0 action of
                   Inl e \<Rightarrow> Inl e
                 | Inr st1 \<Rightarrow>
                     if atype action = PASS then Inr (new_battle_turn (snd (next_turn st1)))
                     else Inr st1)
            | ENDED \<Rightarrow> Inr st0) of
        Inl e \<Rightarrow> Inl e
      | Inr st' \<Rightarrow> Inr (st'\<lparr>available_actions_cache := None, action_mask_cache := Has None\<rparr>))"

section \<open>Cloning\<close>

text \<open>
  \<^verbatim>\<open>State.clone\<close> assigns the generator, the phase, the turn, the current player, the
  cache of the available actions, the winner, the draft cards and the cloned players.
  It assigns neither \<^verbatim>\<open>instance_counter\<close>, \<^verbatim>\<open>items\<close>, \<^verbatim>\<open>was_last_action_invalid\<close> nor
  the cache of the mask.
\<close>

definition clone :: "State \<Rightarrow> State" where
  "clone st =
     \<lparr> instance_counter = Missing,
       np_random = np_random st,
       items = Missing,
       phase = phase st,
       turn = turn st,
       was_last_action_invalid = Missing,
       players = (Player_clone (fst (players st)), Player_clone (snd (players st))),
       private_current_player = private_current_player st,
       available_actions_cache = available_actions_cache st,
       action_mask_cache = Missing,
       winner = winner st,
       draft_cards = draft_cards st \<rparr>"

section \<open>Serialisation\<close>

text \<open>Python's decimal rendering of an integer, as \<^verbatim>\<open>f"{n}"\<close> gives it.\<close>

function show_nat :: "nat \<Rightarrow> string" where
  "show_nat n =
     (if n < 10 then [''0123456789'' ! n]
      else show_nat (n div 10) @ [''0123456789'' ! (n mod 10)])"
  by pat_completeness auto
termination
  by (relation "measure (\<lambda>n. n)") auto

declare show_nat.simps [simp del]

definition show_int :: "int \<Rightarrow> string" where
  "show_int i = (if i < 0 then CHR ''-'' # show_nat (nat (- i)) else show_nat (nat i))"

definition newline :: string where
  "newline = [CHR 0x0A]"

definition type_name :: "ActionType \<Rightarrow> string" where
  "type_name t =
     (case t of PICK \<Rightarrow> ''PICK'' | SUMMON \<Rightarrow> ''SUMMON'' | ATTACK \<Rightarrow> ''ATTACK''
              | USE \<Rightarrow> ''USE'' | PASS \<Rightarrow> ''PASS'')"

definition header_line :: "Player \<Rightarrow> int \<Rightarrow> string" where
  "header_line cp draw_count =
     show_int (health cp) @ '' '' @ show_int (base_mana cp + bonus_mana cp) @ '' ''
     @ show_int (int (length (deck cp))) @ '' '' @ show_int (next_rune cp) @ '' ''
     @ show_int draw_count @ newline"

text \<open>The opponent's actions since its last pass, the newest one left out, oldest first.\<close>

definition last_actions :: "Player \<Rightarrow> LoggedAction list" where
  "last_actions p = rev (takeWhile (\<lambda>a. atype a \<noteq> PASS) (rev (butlast (actions p))))"

definition action_line :: "LoggedAction \<Rightarrow> error + string" where
  "action_line a =
     (case resolved_origin a of
        None \<Rightarrow> Inl AttributeError
      | Some ro \<Rightarrow>
          Inr (show_int (card_id ro) @ '' '' @ type_name (atype a) @ '' ''
               @ (case origin a of None \<Rightarrow> ''None'' | Some i \<Rightarrow> show_int i) @ '' ''
               @ show_int (case target a of None \<Rightarrow> - 1 | Some t \<Rightarrow> t) @ newline))"

fun collect :: "(error + string) list \<Rightarrow> error + string" where
  "collect [] = Inr []"
| "collect (Inl e # rest) = Inl e"
| "collect (Inr x # rest) = (case collect rest of Inl e \<Rightarrow> Inl e | Inr y \<Rightarrow> Inr (x @ y))"

text \<open>
  \<^verbatim>\<open>c in cards\<close> for a card \<open>c\<close> of the listing: true when \<open>c\<close> was taken from that very
  list (\<open>same\<close>), or when a member equals it.
\<close>

definition member_of :: "Card \<Rightarrow> bool \<Rightarrow> Card list \<Rightarrow> bool" where
  "member_of c same cs = (same \<or> card_in c cs)"

text \<open>The location code and the lane of a card taken from the container \<open>seg\<close>.\<close>

definition locate :: "State \<Rightarrow> Location \<Rightarrow> Card \<Rightarrow> int \<times> int" where
  "locate st seg c =
     (let p = current_player st; opp = opposing_player st in
      if member_of c (seg = PLAYER_HAND) (hand p) then (0, - 1)
      else if member_of c (seg = PLAYER_LEFT_LANE \<or> seg = PLAYER_RIGHT_LANE)
                (fst (lanes p) @ snd (lanes p))
      then (1, if member_of c (seg = PLAYER_LEFT_LANE) (fst (lanes p)) then 0 else 1)
      else (- 1, if member_of c (seg = ENEMY_LEFT_LANE) (fst (lanes opp)) then 0 else 1))"

definition cardType :: "Card \<Rightarrow> error + int" where
  "cardType c =
     (if card_type c = ''creature'' then Inr 0
      else if card_type c = ''itemGreen'' then Inr 1
      else if card_type c = ''itemRed'' then Inr 2
      else if card_type c = ''itemBlue'' then Inr 3
      else Inl AttributeError)"

definition abilities_string :: "Card \<Rightarrow> string" where
  "abilities_string c = map (\<lambda>a. if has_ability c a then a else CHR ''-'') ''BCDGLW''"

definition card_line :: "State \<Rightarrow> Location \<Rightarrow> Card \<Rightarrow> error + string" where
  "card_line st seg c =
     (case cardType c of
        Inl e \<Rightarrow> Inl e
      | Inr ct \<Rightarrow>
          Inr (show_int (card_id c) @ '' ''
               @ show_int (case instance_id c of None \<Rightarrow> - 1 | Some i \<Rightarrow> i) @ '' ''
               @ show_int (fst (locate st seg c)) @ '' '' @ show_int ct @ '' ''
               @ show_int (cost c) @ '' '' @ show_int (attack c) @ '' ''
               @ show_int (defense c) @ '' '' @ abilities_string c @ '' ''
               @ show_int (player_hp c) @ '' '' @ show_int (enemy_hp c) @ '' ''
               @ show_int (card_draw c) @ '' '' @ show_int (snd (locate st seg c))
               @ '' '' @ newline))"

text \<open>
  \<^verbatim>\<open>State.__str__\<close>.  The source also stores the location, the lane, the type code and
  the ability string on each listed card object, and overwrites a missing instance id by
  \<open>-1\<close>; the model gives the text and leaves the state as it is.  The stored \<open>-1\<close> could
  be seen only by a later comparison with a card whose own instance id is \<open>-1\<close>, and
  battle setup numbers the cards from 1.
\<close>

definition State_str :: "State \<Rightarrow> error + string" where
  "State_str st =
     (let p = current_player st; opp = opposing_player st in
      case last_drawn p of
        Missing \<Rightarrow> Inl AttributeError
      | Has drawn \<Rightarrow>
          let op_hand = (if phase st \<noteq> DRAFT then int (length (hand opp)) else 0);
              segments = [PLAYER_HAND, PLAYER_LEFT_LANE, PLAYER_RIGHT_LANE,
                          ENEMY_LEFT_LANE, ENEMY_RIGHT_LANE];
              cards = concat (map (\<lambda>seg. map (\<lambda>c. (seg, c)) (cards_at st seg)) segments)
          in collect
               ([Inr (header_line p drawn),
                 Inr (header_line opp (1 + bonus_draw opp)),
                 Inr (show_int op_hand @ '' '' @ show_int (int (length (last_actions opp)))
                      @ newline)]
                @ map action_line (last_actions opp)
                @ [Inr (show_int (int (length cards)) @ newline)]
                @ map (\<lambda>(seg, c). card_line st seg c) cards))"

section \<open>The battle environment\<close>

text \<open>
  Modelled from the spec: the property \<^verbatim>\<open>_battle_is_finished\<close> of the environment's base
  class is not among the sources; the spec says that the error is raised when an action
  is applied after the game reached \<^verbatim>\<open>Ended\<close>.
\<close>

definition battle_is_finished :: "State \<Rightarrow> bool" where
  "battle_is_finished st = (phase st = ENDED)"

text \<open>
  \<^verbatim>\<open>LOCMBattleEnv.step\<close> for an action object: the new state, the reward and the
  \<^verbatim>\<open>done\<close> flag.  The encoded observation and the info dictionary are left out.
\<close>

definition step ::
  "(nat \<Rightarrow> Card list \<Rightarrow> Card list \<times> nat) \<Rightarrow> State \<Rightarrow> Action \<Rightarrow> error + (State \<times> int \<times> bool)" where
  "step shuffle st action =
     (if battle_is_finished st then Inl GameIsEndedError
      else (case act shuffle st action of
              Inl e \<Rightarrow> Inl e
            | Inr st' \<Rightarrow>
                Inr (st',
                     (case winner st' of None \<Rightarrow> 0 | Some FIRST \<Rightarrow> 1 | Some SECOND \<Rightarrow> - 1),
                     winner st' \<noteq> None)))"

section \<open>Constructors and example states\<close>

text \<open>The type string under which \<^verbatim>\<open>load_cards\<close> creates an object of a class.\<close>

definition class_type :: "CardClass \<Rightarrow> string" where
  "class_type cls =
     (case cls of Creature \<Rightarrow> ''creature'' | GreenItem \<Rightarrow> ''itemGreen''
                | RedItem \<Rightarrow> ''itemRed'' | BlueItem \<Rightarrow> ''itemBlue'')"

text \<open>
  \<^verbatim>\<open>Card.__init__\<close> (and \<^verbatim>\<open>Creature.__init__\<close>) for a card without name, text and
  on-play effects: the keyword string loses its dashes and becomes a set, the flags start
  false.
\<close>

definition new_card ::
  "CardClass \<Rightarrow> int \<Rightarrow> int \<Rightarrow> int \<Rightarrow> int \<Rightarrow> string \<Rightarrow> int option \<Rightarrow> Card" where
  "new_card cls cid c a d kws iid =
     \<lparr> card_id = cid, instance_id = iid, name = [], card_type = class_type cls,
       card_class = cls, cost = c, attack = a, defense = d,
       abilities = set (filter (\<lambda>k. k \<noteq> CHR ''-'') kws),
       player_hp = 0, enemy_hp = 0, card_draw = 0, card_text = [],
       is_dead = False, can_attack = False, has_attacked_this_turn = False \<rparr>"

text \<open>\<^verbatim>\<open>Player.__init__\<close>.\<close>

definition new_player :: "PlayerOrder \<Rightarrow> Player" where
  "new_player pid =
     \<lparr> player_id = pid, health = 30, base_mana = 0, bonus_mana = 0, mana = 0,
       next_rune = 25, bonus_draw = 0, last_drawn = Has 0, deck = [], hand = [],
       lanes = ([], []), actions = [] \<rparr>"

text \<open>A battle state with the given players, the first one to move, items enabled.\<close>

definition battle_state :: "Player \<Rightarrow> Player \<Rightarrow> State" where
  "battle_state p1 p2 =
     \<lparr> instance_counter = Has 60, np_random = 0, items = Has True, phase = BATTLE, turn = 1,
       was_last_action_invalid = Has False, players = (p1, p2),
       private_current_player = FIRST, available_actions_cache = None,
       action_mask_cache = Has None, winner = None, draft_cards = [] \<rparr>"

text \<open>A stand-in for the shuffle that leaves every list in its order.\<close>

definition keep_order :: "nat \<Rightarrow> Card list \<Rightarrow> Card list \<times> nat" where
  "keep_order g cs = (cs, g)"

text \<open>
  A creature with Drain and Ward (attack 3, cost 4) faces a creature with attack 1 and
  defense 5; the player to move has no mana.
\<close>

definition drain_state :: State where
  "drain_state =
     battle_state
       ((new_player FIRST)
          \<lparr>lanes := ([(new_card Creature 10 4 3 4 ''--D--W'' (Some 1))\<lparr>can_attack := True\<rparr>], [])\<rparr>)
       ((new_player SECOND)
          \<lparr>lanes := ([new_card Creature 11 2 1 5 ''------'' (Some 2)], [])\<rparr>)"

text \<open>
  A creature without abilities (attack 3, cost 5) that may attack, an empty board on the
  other side, and no mana.
\<close>

definition attack_state :: State where
  "attack_state =
     battle_state
       ((new_player FIRST)
          \<lparr>lanes := ([(new_card Creature 12 5 3 4 ''------'' (Some 1))\<lparr>can_attack := True\<rparr>], [])\<rparr>)
       (new_player SECOND)"

text \<open>
  The player to move holds a green item (cost 1) and 3 mana and owns one creature; the
  opponent owns one creature.
\<close>

definition green_state :: State where
  "green_state =
     battle_state
       ((new_player FIRST)
          \<lparr>mana := 3, base_mana := 3,
           hand := [new_card GreenItem 120 1 1 1 ''------'' (Some 1)],
           lanes := ([new_card Creature 12 5 3 4 ''------'' (Some 2)], [])\<rparr>)
       ((new_player SECOND)
          \<lparr>lanes := ([new_card Creature 11 2 1 5 ''------'' (Some 3)], [])\<rparr>)"

text \<open>A game that has ended: the second player is at 0 health.\<close>

definition ended_state :: State where
  "ended_state =
     (battle_state (new_player FIRST) ((new_player SECOND)\<lparr>health := 0, next_rune := 0\<rparr>))
       \<lparr>phase := ENDED, winner := Some FIRST\<rparr>"

text \<open>
  The player to move has an empty deck, a hand of eight cards, 12 health and the next
  rune at 10.
\<close>

definition burn_state :: State where
  "burn_state =
     battle_state
       ((new_player FIRST)
          \<lparr>health := 12, next_rune := 10,
           hand := map (\<lambda>i. new_card Creature 12 5 3 4 ''------'' (Some i)) [1, 2, 3, 4, 5, 6, 7, 8]\<rparr>)
       (new_player SECOND)"

text \<open>A creature with Ward and 1 defense.\<close>

definition warded :: Card where
  "warded = new_card Creature 13 2 1 1 ''-----W'' (Some 1)"

text \<open>The state \<open>green_state\<close> with all mana of the player to move spent.\<close>

definition poor_state :: State where
  "poor_state =
     green_state\<lparr>players := ((fst (players green_state))\<lparr>mana := 0\<rparr>, snd (players green_state))\<rparr>"

text \<open>The player to move holds a creature of cost 2 and has 3 mana.\<close>

definition summon_state :: State where
  "summon_state =
     battle_state
       ((new_player FIRST)
          \<lparr>mana := 3, base_mana := 3,
           hand := [new_card Creature 14 2 2 2 ''------'' (Some 1)]\<rparr>)
       (new_player SECOND)"

text \<open>A player at 26 health whose next rune is at 25.\<close>

definition rune_player :: Player where
  "rune_player = (new_player FIRST)\<lparr>health := 26\<rparr>"

section \<open>Runs of the game\<close>

text \<open>
  A driver that applies the actions one after the other; an error that escapes from
  \<^verbatim>\<open>act\<close> ends the run.
\<close>

fun act_all ::
  "(nat \<Rightarrow> Card list \<Rightarrow> Card list \<times> nat) \<Rightarrow> State \<Rightarrow> Action list \<Rightarrow> error + State" where
  "act_all shuffle st [] = Inr st"
| "act_all shuffle st (a # rest) =
     (case act shuffle st a of Inl e \<Rightarrow> Inl e | Inr st' \<Rightarrow> act_all shuffle st' rest)"

text \<open>No player's next rune is higher in \<open>st'\<close> than in \<open>st\<close>.\<close>

definition rune_le :: "State \<Rightarrow> State \<Rightarrow> bool" where
  "rune_le st' st =
     (next_rune (fst (players st')) \<le> next_rune (fst (players st))
      \<and> next_rune (snd (players st')) \<le> next_rune (snd (players st)))"

section \<open>Well-formed battle states and the canonical actions\<close>

text \<open>The containers of the two sides of a lane, and the offset of a lane's board slots.\<close>

definition own_lane :: "Lane \<Rightarrow> Location" where
  "own_lane l = (case l of LEFT \<Rightarrow> PLAYER_LEFT_LANE | RIGHT \<Rightarrow> PLAYER_RIGHT_LANE)"

definition enemy_lane :: "Lane \<Rightarrow> Location" where
  "enemy_lane l = (case l of LEFT \<Rightarrow> ENEMY_LEFT_LANE | RIGHT \<Rightarrow> ENEMY_RIGHT_LANE)"

definition lane_offset :: "Lane \<Rightarrow> nat" where
  "lane_offset l = (case l of LEFT \<Rightarrow> 0 | RIGHT \<Rightarrow> 3)"

text \<open>The creatures on the board, and the cards the player to move can name in an action.\<close>

definition board :: "State \<Rightarrow> Card list" where
  "board st =
     lane_of (current_player st) LEFT @ lane_of (current_player st) RIGHT
     @ lane_of (opposing_player st) LEFT @ lane_of (opposing_player st) RIGHT"

text \<open>
  What every battle state that the engine reaches satisfies when the legal actions are
  asked for: the caches are empty (\<^verbatim>\<open>act\<close> clears them), the hand holds at most 8 cards
  and each lane at most 3 (\<^verbatim>\<open>draw\<close> and \<^verbatim>\<open>_do_summon\<close> refuse more), and the cards carry
  instance ids, no two the same (battle setup numbers them).
\<close>

definition wf_battle :: "State \<Rightarrow> bool" where
  "wf_battle st =
     (phase st = BATTLE
      \<and> available_actions_cache st = None
      \<and> action_mask_cache st = Has None
      \<and> items st \<noteq> Missing
      \<and> length (hand (current_player st)) \<le> 8
      \<and> length (lane_of (current_player st) LEFT) \<le> 3
      \<and> length (lane_of (current_player st) RIGHT) \<le> 3
      \<and> length (lane_of (opposing_player st) LEFT) \<le> 3
      \<and> length (lane_of (opposing_player st) RIGHT) \<le> 3
      \<and> distinct (map instance_id (hand (current_player st) @ board st))
      \<and> None \<notin> set (map instance_id (hand (current_player st) @ board st)))"

definition pass_action :: Action where
  "pass_action = \<lparr>atype = PASS, origin = None, target = None\<rparr>"

text \<open>
  Modelled from the spec: the decoding of a mask position into an action lives in the
  environment's base class, which is not among the sources.  The spec lays the positions
  out as follows: 0 is Pass; 1 to 16 are the summons, two lanes for each of 8 hand slots;
  17 to 120 are the uses of items, 13 for each hand slot (first no target, then the three
  places of the own left lane, the own right lane, the enemy left lane and the enemy right
  lane); 121 to 144 are the attacks, 4 for each of the 6 board slots (first no target,
  then the three places of the enemy lane opposite).  With items disabled the mask is
  the first 17 entries followed by the last 24.  A position whose hand slot, board slot
  or place holds no card stands for no action.
\<close>

definition canonical_action :: "State \<Rightarrow> bool \<Rightarrow> nat \<Rightarrow> Action option" where
  "canonical_action st with_items i =
     (let k = (if \<not> with_items \<and> i > 16 then i + 104 else i);
          cp = current_player st;
          op = opposing_player st
      in if k = 0 then Some pass_action
         else if k \<le> 16 then
           (let slot = (k - 1) div 2; lane = (k - 1) mod 2
            in if slot < length (hand cp)
               then Some \<lparr>atype = SUMMON, origin = instance_id (hand cp ! slot),
                          target = Some (int lane)\<rparr>
               else None)
         else if k \<le> 120 then
           (let slot = (k - 17) div 13; sub = (k - 17) mod 13
            in if slot < length (hand cp)
               then (if sub = 0
                     then Some \<lparr>atype = USE, origin = instance_id (hand cp ! slot), target = None\<rparr>
                     else
                       (let cs = (if sub \<le> 3 then lane_of cp LEFT
                                  else if sub \<le> 6 then lane_of cp RIGHT
                                  else if sub \<le> 9 then lane_of op LEFT
                                  else lane_of op RIGHT);
                            place = (sub - 1) mod 3
                        in if place < length cs
                           then Some \<lparr>atype = USE, origin = instance_id (hand cp ! slot),
                                      target = instance_id (cs ! place)\<rparr>
                           else None))
               else None)
         else if k \<le> 144 then
           (let slot = (k - 121) div 4; sub = (k - 121) mod 4;
                lane = (if slot < 3 then LEFT else RIGHT); place = slot mod 3
            in if place < length (lane_of cp lane)
               then (if sub = 0
                     then Some \<lparr>atype = ATTACK, origin = instance_id (lane_of cp lane ! place),
                                target = None\<rparr>
                     else if sub - 1 < length (lane_of op lane)
                     then Some \<lparr>atype = ATTACK, origin = instance_id (lane_of cp lane ! place),
                                target = instance_id (lane_of op lane ! (sub - 1))\<rparr>
                     else None)
               else None)
         else None)"

text \<open>
  The spec's scenario for Guard: the opposing left lane holds two creatures, the second
  of them with Guard, and the player to move has a creature in the left lane that may
  attack.
\<close>

definition guard_state :: State where
  "guard_state =
     battle_state
       ((new_player FIRST)
          \<lparr>lanes := ([(new_card Creature 12 5 3 4 ''------'' (Some 1))\<lparr>can_attack := True\<rparr>], [])\<rparr>)
       ((new_player SECOND)
          \<lparr>lanes := ([new_card Creature 11 2 1 5 ''------'' (Some 2),
                      new_card Creature 15 3 2 3 ''---G--'' (Some 3)], [])\<rparr>)"

text \<open>
  The player to move has 5 mana and holds a creature (cost 2), a blue item (cost 1) and a
  green item (cost 9); a creature of each player stands in the left lane, the one of the
  player to move ready to attack.
\<close>

definition mask_state :: State where
  "mask_state =
     battle_state
       ((new_player FIRST)
          \<lparr>mana := 5, base_mana := 5,
           hand := [new_card Creature 14 2 2 2 ''------'' (Some 1),
                    new_card BlueItem 150 1 0 (- 2) ''------'' (Some 2),
                    new_card GreenItem 120 9 1 1 ''------'' (Some 3)],
           lanes := ([(new_card Creature 12 5 3 4 ''------'' (Some 4))\<lparr>can_attack := True\<rparr>], [])\<rparr>)
       ((new_player SECOND)
          \<lparr>lanes := ([new_card Creature 11 2 1 5 ''------'' (Some 5)], [])\<rparr>)"

section \<open>Basic facts\<close>

lemma player_of_set_player:
  "player_of (set_player st w p) w' = (if w' = w then p else player_of st w')"
  by (cases w; cases w') (simp_all add: player_of_def set_player_def)

lemma current_player_set_current [simp]:
  "current_player (set_current_player st p) = p"
  by (cases "private_current_player st")
     (simp_all add: current_player_def set_current_player_def player_of_def set_player_def)

lemma rune_loop_health: "health (rune_loop p) = health p"
proof (induction p rule: rune_loop.induct)
  case (1 p)
  then show ?case by (subst rune_loop.simps) simp
qed

lemma rune_loop_hand: "hand (rune_loop p) = hand p"
proof (induction p rule: rune_loop.induct)
  case (1 p)
  then show ?case by (subst rune_loop.simps) simp
qed

lemma draw_loop_empty_deck:
  "deck p = [] \<Longrightarrow> 0 < n \<Longrightarrow> draw_loop n p = (Some EmptyDeckError, p)"
  by (cases n) simp_all

section \<open>Damage without effect\<close>

text \<open>
  C10.  \<^verbatim>\<open>Creature.damage\<close> with an amount that is not positive returns 0 and leaves the
  creature as it was: the Ward stays, the defense stays, and the creature is not marked
  dead even when the lethal flag is set.
\<close>

theorem Creature_damage_nonpositive:
  "amount \<le> 0 \<Longrightarrow> Creature_damage c amount lethal = (Inr 0, c)"
  by (simp add: Creature_damage_def)

theorem Creature_damage_nonpositive_witness:
  "(- 3 :: int) \<le> 0 \<and> has_ability warded CHR ''W''
   \<and> Creature_damage warded (- 3) True = (Inr 0, warded)"
  using Creature_damage_nonpositive [of "- 3" warded True]
  by (simp add: warded_def new_card_def has_ability_def)

section \<open>Drawing from an empty deck\<close>

text \<open>
  C9.  A call of \<^verbatim>\<open>Player.draw\<close> that is to draw at least one card from an empty deck
  raises \<^verbatim>\<open>EmptyDeckError\<close> whatever the size of the hand, and draws nothing.  So at the
  start of a battle turn a player whose deck is empty takes the burn damage
  \<open>health - next_rune\<close>, also with a full hand, and the hand stays as it is.
\<close>

theorem empty_deck_draw:
  assumes "deck p = []" and "0 < amount"
    and "deck (current_player st) = []" and "0 \<le> bonus_draw (current_player st)"
  shows "draw p amount = (Some EmptyDeckError, p)
       \<and> health (current_player (new_battle_turn st))
           = health (current_player st) - (health (current_player st) - next_rune (current_player st))
       \<and> hand (current_player (new_battle_turn st)) = hand (current_player st)"
proof -
  have a: "draw p amount = (Some EmptyDeckError, p)"
    using assms(1,2) by (simp add: draw_def draw_loop_empty_deck)
  have n: "0 < nat (1 + bonus_draw (current_player st))"
    using assms(4) by simp
  show ?thesis
    using a assms(3)
    by (simp add: new_battle_turn_def Let_def draw_def draw_loop_empty_deck [OF _ n]
        Player_damage_def rune_loop_health rune_loop_hand)
qed

theorem empty_deck_draw_witness:
  "length (hand (current_player burn_state)) = 8
   \<and> draw (current_player burn_state) 1 = (Some EmptyDeckError, current_player burn_state)
   \<and> health (current_player (new_battle_turn burn_state)) = 10
   \<and> hand (current_player (new_battle_turn burn_state)) = hand (current_player burn_state)"
proof -
  have d: "deck (current_player burn_state) = []"
    by (simp add: burn_state_def battle_state_def new_player_def current_player_def player_of_def)
  have b: "0 \<le> bonus_draw (current_player burn_state)"
    by (simp add: burn_state_def battle_state_def new_player_def current_player_def player_of_def)
  have h: "health (current_player burn_state) = 12" "next_rune (current_player burn_state) = 10"
    "length (hand (current_player burn_state)) = 8"
    by (simp_all add: burn_state_def battle_state_def new_player_def current_player_def player_of_def)
  show ?thesis
    using empty_deck_draw [OF d _ d b, of 1] h by simp
qed

section \<open>Drain behind a Ward\<close>

text \<open>
  C5.  The attacker has Drain and Ward and 3 attack; the defender has 1 attack and 5
  defense.  The attack is carried out and the defender loses 3 defense, yet the attacking
  player's health stays at 30: the handler of the attacker's own Ward sets the damage
  dealt to 0.
\<close>

theorem drain_ward_no_heal:
  "(case act keep_order drain_state \<lparr>atype = ATTACK, origin = Some 1, target = Some 2\<rparr> of
      Inl e \<Rightarrow> False
    | Inr st' \<Rightarrow>
        was_last_action_invalid st' = Has False
        \<and> map defense (fst (lanes (snd (players st')))) = [2]
        \<and> health (fst (players st')) = 30)"
  by code_simp

section \<open>A failed use of an item\<close>

text \<open>
  C3.  A green item is used on an enemy creature.  The action is flagged invalid and no
  mana is spent, but the item has left the hand: \<^verbatim>\<open>_do_use\<close> removes the origin from the
  hand before it tests the target.
\<close>

theorem failed_use_loses_item:
  "(case act keep_order green_state \<lparr>atype = USE, origin = Some 1, target = Some 3\<rparr> of
      Inl e \<Rightarrow> False
    | Inr st' \<Rightarrow>
        was_last_action_invalid st' = Has True
        \<and> hand (fst (players st')) = []
        \<and> mana (fst (players st')) = 3
        \<and> lanes (fst (players st')) = lanes (fst (players green_state))
        \<and> snd (players st') = snd (players green_state))"
  by code_simp

section \<open>The text of a clone\<close>

text \<open>
  C7.  The text of a state is computed, the text of its clone is not: \<^verbatim>\<open>Player.clone\<close>
  does not assign \<^verbatim>\<open>last_drawn\<close>, which \<^verbatim>\<open>__str__\<close> reads for the player to move.
\<close>

theorem clone_str_fails:
  "State_str (clone attack_state) = Inl AttributeError
   \<and> State_str attack_state
       = Inr (''30 0 0 25 0'' @ newline @ ''30 0 0 25 1'' @ newline @ ''0 0'' @ newline
              @ ''1'' @ newline @ ''12 1 1 0 5 3 4 ------ 0 0 0 0 '' @ newline)"
  by code_simp

section \<open>Actions after the end of the game\<close>

text \<open>
  C8, as the claim states it, fails: \<^verbatim>\<open>State.act\<close> on an ended game raises nothing.
\<close>

theorem act_on_ended_raises_nothing:
  "phase ended_state = ENDED
   \<and> act keep_order ended_state \<lparr>atype = PASS, origin = None, target = None\<rparr>
       \<noteq> Inl GameIsEndedError"
  by code_simp

text \<open>
  C8, amended.  On a state whose phase is \<^verbatim>\<open>ENDED\<close>, \<^verbatim>\<open>State.act\<close> returns normally: it
  resets the invalid-action flag and the two caches and changes nothing else.  The error
  is raised one layer up: \<^verbatim>\<open>LOCMBattleEnv.step\<close> raises \<^verbatim>\<open>GameIsEndedError\<close> for every
  action once the battle is finished.
\<close>

theorem act_on_ended:
  "phase st = ENDED \<Longrightarrow>
     act shuffle st a
       = Inr (st\<lparr>was_last_action_invalid := Has False, available_actions_cache := None,
                 action_mask_cache := Has None\<rparr>)
     \<and> step shuffle st a = Inl GameIsEndedError"
  by (simp add: act_def step_def battle_is_finished_def)

theorem act_on_ended_witness:
  "phase ended_state = ENDED
   \<and> act keep_order ended_state \<lparr>atype = PASS, origin = None, target = None\<rparr>
       = Inr (ended_state\<lparr>was_last_action_invalid := Has False, available_actions_cache := None,
                          action_mask_cache := Has None\<rparr>)
   \<and> step keep_order ended_state \<lparr>atype = PASS, origin = None, target = None\<rparr>
       = Inl GameIsEndedError"
proof -
  have e: "phase ended_state = ENDED"
    by (simp add: ended_state_def battle_state_def)
  show ?thesis
    using act_on_ended [OF e, of keep_order "\<lparr>atype = PASS, origin = None, target = None\<rparr>"] e
    by simp
qed

section \<open>Mana\<close>

lemma current_player_set_opposing [simp]:
  "current_player (set_opposing_player st q) = current_player st"
  by (cases "private_current_player st")
     (simp_all add: current_player_def set_opposing_player_def player_of_def set_player_def)

lemma opposing_player_set_opposing [simp]:
  "opposing_player (set_opposing_player st q) = q"
  by (cases "private_current_player st")
     (simp_all add: opposing_player_def set_opposing_player_def player_of_def set_player_def)

lemma opposing_player_set_current [simp]:
  "opposing_player (set_current_player st p) = opposing_player st"
  by (cases "private_current_player st")
     (simp_all add: opposing_player_def set_current_player_def player_of_def set_player_def)

lemma mana_set_lane [simp]: "mana (set_lane p l cs) = mana p"
  by (cases l) (simp_all add: set_lane_def)

lemma mana_current_set_cards_at [simp]:
  "mana (current_player (set_cards_at st loc cs)) = mana (current_player st)"
  by (cases loc) (simp_all add: set_cards_at_def)

lemma mana_current_update_card [simp]:
  "mana (current_player (update_card st r f)) = mana (current_player st)"
  by (simp add: update_card_def)

lemma mana_current_play_effects [simp]:
  "mana (current_player (play_effects st orig)) = mana (current_player st)"
  by (simp add: play_effects_def Let_def)

lemma mana_current_pay_cost [simp]:
  "mana (current_player (pay_cost st orig)) = mana (current_player st) - cost orig"
  by (simp add: pay_cost_def)

lemma do_summon_poor:
  "cost (card_at st r) > mana (current_player st) \<Longrightarrow>
     do_summon st (Some r) lane = (Some NotEnoughManaError, st)"
  by (simp add: do_summon_def Let_def)

lemma do_use_poor:
  "cost (card_at st r) > mana (current_player st) \<Longrightarrow>
     do_use st (Some r) t = (Some NotEnoughManaError, st)"
  by (simp add: do_use_def Let_def)

lemma do_summon_mana:
  "do_summon st (Some r) lane = (res, st') \<Longrightarrow>
     mana (current_player st')
       = (if res = None then mana (current_player st) - cost (card_at st r)
          else mana (current_player st))"
  by (auto simp: do_summon_def Let_def split: option.splits if_splits)

lemma do_use_mana:
  "do_use st (Some r) t = (res, st') \<Longrightarrow>
     mana (current_player st')
       = (if res = None then mana (current_player st) - cost (card_at st r)
          else mana (current_player st))"
  by (auto simp: do_use_def Let_def split: option.splits if_splits CardClass.splits)

lemma attack_finish_mana:
  "fst (attack_finish st r d) = None
   \<and> mana (current_player (snd (attack_finish st r d))) = mana (current_player st)"
  by (simp add: attack_finish_def Let_def)

lemma do_attack_mana:
  "fst (do_attack st orig t) \<noteq> Some NotEnoughManaError
   \<and> mana (current_player (snd (do_attack st orig t))) = mana (current_player st)"
  by (auto simp: do_attack_def Let_def attack_finish_mana split: option.splits if_splits prod.splits)

text \<open>
  C4, as the claim states it, fails for Attack: a creature whose cost exceeds the mana of
  its player attacks, and no mana is spent.
\<close>

theorem attack_is_free:
  "cost (card_at attack_state (PLAYER_LEFT_LANE, 0)) > mana (current_player attack_state)
   \<and> (case act keep_order attack_state \<lparr>atype = ATTACK, origin = Some 1, target = None\<rparr> of
        Inl e \<Rightarrow> False
      | Inr st' \<Rightarrow> was_last_action_invalid st' = Has False
                   \<and> health (snd (players st')) = 27
                   \<and> mana (fst (players st')) = 0)"
  by code_simp

text \<open>
  C4, amended.  For Summon and Use: if the cost of the acting card exceeds the current
  player's mana, the action fails with \<^verbatim>\<open>NotEnoughManaError\<close> and the state is unchanged;
  when the action succeeds the mana is debited by exactly that cost, and when it fails
  for any reason the mana stays as it was.  Attack has no mana check: it never fails for
  lack of mana and never changes the mana.
\<close>

theorem mana_precheck_and_debit:
  "(cost (card_at st r) > mana (current_player st) \<longrightarrow>
      do_summon st (Some r) lane = (Some NotEnoughManaError, st)
      \<and> do_use st (Some r) t = (Some NotEnoughManaError, st))
   \<and> (do_summon st (Some r) lane = (None, st1) \<longrightarrow>
        mana (current_player st1) = mana (current_player st) - cost (card_at st r))
   \<and> (do_use st (Some r) t = (None, st2) \<longrightarrow>
        mana (current_player st2) = mana (current_player st) - cost (card_at st r))
   \<and> (do_summon st (Some r) lane = (Some e1, st3) \<longrightarrow>
        mana (current_player st3) = mana (current_player st))
   \<and> (do_use st (Some r) t = (Some e2, st4) \<longrightarrow>
        mana (current_player st4) = mana (current_player st))
   \<and> fst (do_attack st orig t) \<noteq> Some NotEnoughManaError
   \<and> mana (current_player (snd (do_attack st orig t))) = mana (current_player st)"
proof -
  have a: "do_summon st (Some r) lane = (None, st1) \<Longrightarrow>
        mana (current_player st1) = mana (current_player st) - cost (card_at st r)"
    by (drule do_summon_mana) simp
  have b: "do_use st (Some r) t = (None, st2) \<Longrightarrow>
        mana (current_player st2) = mana (current_player st) - cost (card_at st r)"
    by (drule do_use_mana) simp
  have c: "do_summon st (Some r) lane = (Some e1, st3) \<Longrightarrow>
        mana (current_player st3) = mana (current_player st)"
    by (drule do_summon_mana) simp
  have d: "do_use st (Some r) t = (Some e2, st4) \<Longrightarrow>
        mana (current_player st4) = mana (current_player st)"
    by (drule do_use_mana) simp
  show ?thesis
    using a b c d do_attack_mana [of st orig t]
    by (simp add: do_summon_poor do_use_poor)
qed

theorem mana_precheck_and_debit_witness:
  "do_summon poor_state (Some (PLAYER_HAND, 0)) (Some LEFT) = (Some NotEnoughManaError, poor_state)
   \<and> do_use poor_state (Some (PLAYER_HAND, 0)) (Some (PLAYER_LEFT_LANE, 0))
       = (Some NotEnoughManaError, poor_state)
   \<and> fst (do_summon summon_state (Some (PLAYER_HAND, 0)) (Some LEFT)) = None
   \<and> mana (current_player (snd (do_summon summon_state (Some (PLAYER_HAND, 0)) (Some LEFT)))) = 1
   \<and> fst (do_use green_state (Some (PLAYER_HAND, 0)) (Some (PLAYER_LEFT_LANE, 0))) = None
   \<and> mana (current_player (snd (do_use green_state (Some (PLAYER_HAND, 0))
                                    (Some (PLAYER_LEFT_LANE, 0))))) = 2
   \<and> fst (do_summon green_state (Some (PLAYER_HAND, 0)) (Some LEFT)) = Some MalformedActionError
   \<and> mana (current_player (snd (do_summon green_state (Some (PLAYER_HAND, 0)) (Some LEFT)))) = 3
   \<and> fst (do_use green_state (Some (PLAYER_HAND, 0)) (Some (ENEMY_LEFT_LANE, 0)))
       = Some MalformedActionError
   \<and> mana (current_player (snd (do_use green_state (Some (PLAYER_HAND, 0))
                                    (Some (ENEMY_LEFT_LANE, 0))))) = 3
   \<and> fst (do_attack attack_state (Some (PLAYER_LEFT_LANE, 0)) None) = None
   \<and> mana (current_player (snd (do_attack attack_state (Some (PLAYER_LEFT_LANE, 0)) None))) = 0"
proof -
  have poor: "cost (card_at poor_state (PLAYER_HAND, 0)) > mana (current_player poor_state)"
    by code_simp
  have v: "mana (current_player summon_state) = 3" "cost (card_at summon_state (PLAYER_HAND, 0)) = 2"
    "mana (current_player green_state) = 3" "cost (card_at green_state (PLAYER_HAND, 0)) = 1"
    "mana (current_player attack_state) = 0"
    by code_simp+
  have s: "fst (do_summon summon_state (Some (PLAYER_HAND, 0)) (Some LEFT)) = None"
    by code_simp
  have u: "fst (do_use green_state (Some (PLAYER_HAND, 0)) (Some (PLAYER_LEFT_LANE, 0))) = None"
    by code_simp
  have sf: "fst (do_summon green_state (Some (PLAYER_HAND, 0)) (Some LEFT))
              = Some MalformedActionError"
    by code_simp
  have uf: "fst (do_use green_state (Some (PLAYER_HAND, 0)) (Some (ENEMY_LEFT_LANE, 0)))
              = Some MalformedActionError"
    by code_simp
  have at: "fst (do_attack attack_state (Some (PLAYER_LEFT_LANE, 0)) None) = None"
    by code_simp
  note t1 = mana_precheck_and_debit [of poor_state "(PLAYER_HAND, 0)" "Some LEFT"
      "Some (PLAYER_LEFT_LANE, 0)"]
  note t2 = mana_precheck_and_debit [of summon_state "(PLAYER_HAND, 0)" "Some LEFT"
      _ "snd (do_summon summon_state (Some (PLAYER_HAND, 0)) (Some LEFT))"]
  note t3 = mana_precheck_and_debit [of green_state "(PLAYER_HAND, 0)" "Some LEFT"
      "Some (PLAYER_LEFT_LANE, 0)" _
      "snd (do_use green_state (Some (PLAYER_HAND, 0)) (Some (PLAYER_LEFT_LANE, 0)))"
      MalformedActionError
      "snd (do_summon green_state (Some (PLAYER_HAND, 0)) (Some LEFT))"]
  note t4 = mana_precheck_and_debit [of green_state "(PLAYER_HAND, 0)" _
      "Some (ENEMY_LEFT_LANE, 0)" _ _ _ _ MalformedActionError
      "snd (do_use green_state (Some (PLAYER_HAND, 0)) (Some (ENEMY_LEFT_LANE, 0)))"]
  note t5 = mana_precheck_and_debit [of attack_state _ _ None _ _ _ _ _ _
      "Some (PLAYER_LEFT_LANE, 0)"]
  have c1: "do_summon poor_state (Some (PLAYER_HAND, 0)) (Some LEFT)
              = (Some NotEnoughManaError, poor_state)
            \<and> do_use poor_state (Some (PLAYER_HAND, 0)) (Some (PLAYER_LEFT_LANE, 0))
              = (Some NotEnoughManaError, poor_state)"
    using t1 poor by blast
  have c2: "mana (current_player (snd (do_summon summon_state (Some (PLAYER_HAND, 0))
              (Some LEFT)))) = 1"
    using t2 s v by (simp add: prod_eq_iff)
  have c3: "mana (current_player (snd (do_use green_state (Some (PLAYER_HAND, 0))
              (Some (PLAYER_LEFT_LANE, 0))))) = 2"
    using t3 u v by (simp add: prod_eq_iff)
  have c4: "mana (current_player (snd (do_summon green_state (Some (PLAYER_HAND, 0))
              (Some LEFT)))) = 3"
    using t3 sf v by (simp add: prod_eq_iff)
  have c5: "mana (current_player (snd (do_use green_state (Some (PLAYER_HAND, 0))
              (Some (ENEMY_LEFT_LANE, 0))))) = 3"
    using t4 uf v by (simp add: prod_eq_iff)
  have c6: "mana (current_player (snd (do_attack attack_state (Some (PLAYER_LEFT_LANE, 0))
              None))) = 0"
    using t5 v by simp
  show ?thesis
    using c1 c2 c3 c4 c5 c6 s u sf uf at by simp
qed

section \<open>Rune thresholds\<close>

lemma rune_loop_next_rune_le: "next_rune p \<le> n \<Longrightarrow> next_rune (rune_loop p) \<le> n"
proof (induction p rule: rune_loop.induct)
  case (1 p)
  then show ?case by (subst rune_loop.simps) simp
qed

lemma rune_loop_pairing:
  "next_rune p - next_rune (rune_loop p) = 5 * (bonus_draw (rune_loop p) - bonus_draw p)"
proof (induction p rule: rune_loop.induct)
  case (1 p)
  then show ?case by (subst (1 2) rune_loop.simps) simp
qed

lemma Player_damage_next_rune_le:
  "next_rune p \<le> n \<Longrightarrow> next_rune (snd (Player_damage p amount)) \<le> n"
  by (simp add: Player_damage_def rune_loop_next_rune_le)

lemma draw_loop_next_rune [simp]: "next_rune (snd (draw_loop n p)) = next_rune p"
  by (induction n p rule: draw_loop.induct) simp_all

lemma draw_next_rune [simp]: "next_rune (snd (draw p amount)) = next_rune p"
  by (simp add: draw_def)

lemma private_current_player_set_player [simp]:
  "private_current_player (set_player st w p) = private_current_player st"
  by (cases w) (simp_all add: set_player_def)

lemma private_current_player_set_current [simp]:
  "private_current_player (set_current_player st p) = private_current_player st"
  by (simp add: set_current_player_def)

lemma private_current_player_set_opposing [simp]:
  "private_current_player (set_opposing_player st p) = private_current_player st"
  by (simp add: set_opposing_player_def)

lemma private_current_player_set_cards_at [simp]:
  "private_current_player (set_cards_at st loc cs) = private_current_player st"
  by (cases loc) (simp_all add: set_cards_at_def)

lemma private_current_player_update_card [simp]:
  "private_current_player (update_card st r f) = private_current_player st"
  by (simp add: update_card_def)

lemma next_rune_set_lane [simp]: "next_rune (set_lane p l cs) = next_rune p"
  by (cases l) (simp_all add: set_lane_def)

lemma next_rune_set_cards_at [simp]:
  "next_rune (current_player (set_cards_at st loc cs)) = next_rune (current_player st)"
  "next_rune (opposing_player (set_cards_at st loc cs)) = next_rune (opposing_player st)"
  by (cases loc; simp add: set_cards_at_def)+

lemma next_rune_update_card [simp]:
  "next_rune (current_player (update_card st r f)) = next_rune (current_player st)"
  "next_rune (opposing_player (update_card st r f)) = next_rune (opposing_player st)"
  by (simp_all add: update_card_def)

lemma rune_le_refl [simp]: "rune_le st st"
  by (simp add: rune_le_def)

lemma rune_le_trans: "rune_le st2 st1 \<Longrightarrow> rune_le st1 st \<Longrightarrow> rune_le st2 st"
  by (auto simp: rune_le_def)

lemma rune_le_cur_opp:
  "private_current_player st' = private_current_player st \<Longrightarrow>
     rune_le st' st
       = (next_rune (current_player st') \<le> next_rune (current_player st)
          \<and> next_rune (opposing_player st') \<le> next_rune (opposing_player st))"
  by (cases "private_current_player st")
     (auto simp: rune_le_def current_player_def opposing_player_def player_of_def)

lemma do_summon_frame:
  "private_current_player (snd (do_summon st orig l)) = private_current_player st
   \<and> rune_le (snd (do_summon st orig l)) st"
  by (auto simp: do_summon_def Let_def rune_le_cur_opp split: option.splits)

lemma play_effects_frame [simp]:
  "private_current_player (play_effects st orig) = private_current_player st"
  "next_rune (current_player (play_effects st orig)) = next_rune (current_player st)"
  "next_rune (opposing_player (play_effects st orig)) = next_rune (opposing_player st)"
  by (simp_all add: play_effects_def Let_def)

lemma pay_cost_frame [simp]:
  "private_current_player (pay_cost st orig) = private_current_player st"
  "next_rune (current_player (pay_cost st orig)) = next_rune (current_player st)"
  "next_rune (opposing_player (pay_cost st orig)) = next_rune (opposing_player st)"
  by (simp_all add: pay_cost_def)

lemma do_use_frame:
  "private_current_player (snd (do_use st orig t)) = private_current_player st
   \<and> rune_le (snd (do_use st orig t)) st"
  by (auto simp: do_use_def Let_def rune_le_cur_opp Player_damage_next_rune_le
      split: option.splits CardClass.splits)

lemma attack_finish_frame [simp]:
  "private_current_player (snd (attack_finish st r d)) = private_current_player st"
  "next_rune (current_player (snd (attack_finish st r d))) = next_rune (current_player st)"
  "next_rune (opposing_player (snd (attack_finish st r d))) = next_rune (opposing_player st)"
  by (simp_all add: attack_finish_def Let_def)

lemma do_attack_frame:
  "private_current_player (snd (do_attack st orig t)) = private_current_player st
   \<and> rune_le (snd (do_attack st orig t)) st"
  by (auto simp: do_attack_def Let_def rune_le_cur_opp Player_damage_def rune_loop_next_rune_le
      split: option.splits prod.splits)


lemma append_action_frame [simp]:
  "private_current_player (append_action st a) = private_current_player st"
  "next_rune (current_player (append_action st a)) = next_rune (current_player st)"
  "next_rune (opposing_player (append_action st a)) = next_rune (opposing_player st)"
  by (simp_all add: append_action_def)

lemma rune_le_append_action: "rune_le st1 st \<Longrightarrow> rune_le (append_action st1 a) st"
  by (rule rune_le_trans [of _ st1]) (simp_all add: rune_le_cur_opp)

lemma try_action_rune: "rune_le (snd (try_action st a)) st"
proof -
  have s: "rune_le (snd (do_summon st orig l)) st" for orig l
    using do_summon_frame by blast
  have u: "rune_le (snd (do_use st orig t)) st" for orig t
    using do_use_frame by blast
  have k: "rune_le (snd (do_attack st orig t)) st" for orig t
    using do_attack_frame by blast
  have s': "do_summon st orig l = (r, st1) \<Longrightarrow> rune_le st1 st" for orig l r st1
    using s [of orig l] by simp
  have u': "do_use st orig t = (r, st1) \<Longrightarrow> rune_le st1 st" for orig t r st1
    using u [of orig t] by simp
  have k': "do_attack st orig t = (r, st1) \<Longrightarrow> rune_le st1 st" for orig t r st1
    using k [of orig t] by simp
  show ?thesis
    by (auto simp: try_action_def Let_def rune_le_append_action
        split: sum.splits ActionType.splits option.splits prod.splits
        dest: s' u' k')
qed

lemma sweep_player_next_rune [simp]: "next_rune (sweep_player p) = next_rune p"
  by (simp add: sweep_player_def)

lemma check_end_players [simp]: "players (check_end st) = players st"
  by (simp add: check_end_def)

lemma act_on_battle_rune: "act_on_battle st a = Inr st' \<Longrightarrow> rune_le st' st"
proof -
  assume a: "act_on_battle st a = Inr st'"
  obtain r st1 where t: "try_action st a = (r, st1)"
    by (cases "try_action st a") auto
  have le: "rune_le st1 st"
    using try_action_rune [of st a] t by simp
  have "rune_le st' st1"
    using a t by (auto simp: act_on_battle_def rune_le_def split: option.splits if_splits)
  then show ?thesis
    using le by (rule rune_le_trans)
qed

lemma next_turn_players [simp]: "players (snd (next_turn st)) = players st"
  by (simp add: next_turn_def Let_def)

lemma new_battle_turn_rune: "rune_le (new_battle_turn st) st"
proof -
  have p: "private_current_player (new_battle_turn st) = private_current_player st"
    by (simp add: new_battle_turn_def Let_def)
  have d: "next_rune (case draw p n of
                        (Some EmptyDeckError, q) \<Rightarrow> snd (Player_damage q (health q - next_rune q))
                      | (r, q) \<Rightarrow> q) \<le> next_rune p" for p n
  proof -
    obtain r q where e: "draw p n = (r, q)"
      by (cases "draw p n") auto
    then have q: "next_rune q = next_rune p"
      using draw_next_rune [of p n] by simp
    show ?thesis
      unfolding e using q
      by (auto simp: Player_damage_next_rune_le split: option.splits error.splits)
  qed
  show ?thesis
    unfolding rune_le_cur_opp [OF p]
    by (simp add: new_battle_turn_def Let_def order_trans [OF d])
qed

lemma prepare_for_battle_rune: "prepare_for_battle sh st = Inr st' \<Longrightarrow> rune_le st' st"
proof -
  assume a: "prepare_for_battle sh st = Inr st'"
  have d: "draw p n = (r, q) \<Longrightarrow> next_rune q = next_rune p" for p n r q
    using draw_next_rune [of p n] by simp
  show ?thesis
    using a
    by (auto simp: prepare_for_battle_def Let_def rune_le_def
        split: prod.splits sum.splits option.splits if_splits attr.splits dest!: d)
qed

lemma act_on_draft_players:
  "act_on_draft st a = Inr st' \<Longrightarrow> rune_le st' st"
  by (cases "private_current_player st")
     (auto simp: act_on_draft_def Let_def rune_le_def set_current_player_def set_player_def
        current_player_def player_of_def split: sum.splits)

lemma new_draft_turn_rune: "new_draft_turn st = Inr st' \<Longrightarrow> rune_le st' st"
  by (auto simp: new_draft_turn_def rune_le_def split: sum.splits)

lemma rune_le_next_turn: "rune_le (snd (next_turn st)) st"
  by (simp add: rune_le_def)

lemma rune_le_caches [simp]:
  "rune_le (st'\<lparr>available_actions_cache := x, action_mask_cache := y\<rparr>) st = rune_le st' st"
  "rune_le st' (st\<lparr>was_last_action_invalid := z\<rparr>) = rune_le st' st"
  by (simp_all add: rune_le_def)

lemma act_rune: "act sh st a = Inr st' \<Longrightarrow> rune_le st' st"
proof -
  assume a: "act sh st a = Inr st'"
  let ?st0 = "st\<lparr>was_last_action_invalid := Has False\<rparr>"
  show ?thesis
  proof (cases "phase st")
    case DRAFT
    from a DRAFT obtain st1 where d: "act_on_draft ?st0 a = Inr st1"
      by (auto simp: act_def Let_def split: sum.splits)
    have l1: "rune_le st1 st"
      using act_on_draft_players [OF d] by simp
    have l2: "rune_le (snd (next_turn st1)) st"
      using rune_le_trans [OF rune_le_next_turn l1] .
    show ?thesis
    proof (cases "phase (snd (next_turn st1))")
      case DRAFT
      with a \<open>phase st = DRAFT\<close> d show ?thesis
        by (auto simp: act_def Let_def split: sum.splits
            intro: rune_le_trans [OF new_draft_turn_rune l2])
    next
      case BATTLE
      with a \<open>phase st = DRAFT\<close> d obtain st3
        where p: "prepare_for_battle sh (snd (next_turn st1)) = Inr st3"
          and s: "st' = (new_battle_turn st3)
                          \<lparr>available_actions_cache := None, action_mask_cache := Has None\<rparr>"
        by (auto simp: act_def Let_def split: sum.splits)
      have "rune_le st3 st"
        using rune_le_trans [OF prepare_for_battle_rune [OF p] l2] .
      then have "rune_le (new_battle_turn st3) st"
        using rune_le_trans [OF new_battle_turn_rune] by blast
      then show ?thesis
        using s by simp
    next
      case ENDED
      with a \<open>phase st = DRAFT\<close> d l2 show ?thesis
        by (auto simp: act_def Let_def split: sum.splits)
    qed
  next
    case BATTLE
    from a BATTLE obtain st1 where b: "act_on_battle ?st0 a = Inr st1"
      by (auto simp: act_def Let_def split: sum.splits)
    have l1: "rune_le st1 st"
      using act_on_battle_rune [OF b] by simp
    have l2: "rune_le (new_battle_turn (snd (next_turn st1))) st"
      by (rule rune_le_trans [OF new_battle_turn_rune rune_le_trans [OF rune_le_next_turn l1]])
    show ?thesis
      using a BATTLE b l1 l2 by (auto simp: act_def Let_def split: if_splits)
  next
    case ENDED
    with a show ?thesis by (auto simp: act_def Let_def rune_le_def)
  qed
qed

lemma act_all_rune: "act_all sh st acts = Inr st' \<Longrightarrow> rune_le st' st"
proof (induction acts arbitrary: st)
  case Nil
  then show ?case by simp
next
  case (Cons a acts)
  then show ?case
    by (auto split: sum.splits intro: rune_le_trans dest: act_rune)
qed

text \<open>
  C6.  Along every run of the game no player's \<^verbatim>\<open>next_rune\<close> ever rises.  It falls only
  in \<^verbatim>\<open>Player.damage\<close>, in steps of 5, and each step adds exactly one to \<^verbatim>\<open>bonus_draw\<close>.
  A hit of 25 on a player at 26 health with the next rune at 25 leaves the player at 1
  health with the next rune at 0 and five more bonus draws.
\<close>

theorem next_rune_monotone:
  "(act_all shuffle st acts = Inr st' \<longrightarrow>
      next_rune (fst (players st')) \<le> next_rune (fst (players st))
      \<and> next_rune (snd (players st')) \<le> next_rune (snd (players st)))
   \<and> next_rune (snd (Player_damage p amount)) \<le> next_rune p
   \<and> next_rune p - next_rune (snd (Player_damage p amount))
       = 5 * (bonus_draw (snd (Player_damage p amount)) - bonus_draw p)
   \<and> (health q = 26 \<and> next_rune q = 25 \<longrightarrow>
        health (snd (Player_damage q 25)) = 1
        \<and> next_rune (snd (Player_damage q 25)) = 0
        \<and> bonus_draw (snd (Player_damage q 25)) = bonus_draw q + 5)"
proof -
  have a: "act_all shuffle st acts = Inr st' \<Longrightarrow>
      next_rune (fst (players st')) \<le> next_rune (fst (players st))
      \<and> next_rune (snd (players st')) \<le> next_rune (snd (players st))"
    using act_all_rune [of shuffle st acts st'] by (simp add: rune_le_def)
  have b: "next_rune (snd (Player_damage p amount)) \<le> next_rune p"
    by (simp add: Player_damage_next_rune_le)
  have c: "next_rune p - next_rune (snd (Player_damage p amount))
       = 5 * (bonus_draw (snd (Player_damage p amount)) - bonus_draw p)"
    using rune_loop_pairing [of "p\<lparr>health := health p - amount\<rparr>"]
    by (simp add: Player_damage_def)
  have d: "health q = 26 \<and> next_rune q = 25 \<Longrightarrow>
        health (snd (Player_damage q 25)) = 1
        \<and> next_rune (snd (Player_damage q 25)) = 0
        \<and> bonus_draw (snd (Player_damage q 25)) = bonus_draw q + 5"
    by (simp add: Player_damage_def rune_loop.simps)
  show ?thesis
    using a b c d by blast
qed

theorem next_rune_monotone_witness:
  "act_all keep_order attack_state
       [\<lparr>atype = ATTACK, origin = Some 1, target = None\<rparr>,
        \<lparr>atype = PASS, origin = None, target = None\<rparr>]
     = Inr (projr (act_all keep_order attack_state
                     [\<lparr>atype = ATTACK, origin = Some 1, target = None\<rparr>,
                      \<lparr>atype = PASS, origin = None, target = None\<rparr>]))
   \<and> next_rune (fst (players (projr (act_all keep_order attack_state
                     [\<lparr>atype = ATTACK, origin = Some 1, target = None\<rparr>,
                      \<lparr>atype = PASS, origin = None, target = None\<rparr>])))) \<le> 25
   \<and> next_rune (snd (players (projr (act_all keep_order attack_state
                     [\<lparr>atype = ATTACK, origin = Some 1, target = None\<rparr>,
                      \<lparr>atype = PASS, origin = None, target = None\<rparr>])))) \<le> 25
   \<and> health rune_player = 26 \<and> next_rune rune_player = 25 \<and> bonus_draw rune_player = 0
   \<and> health (snd (Player_damage rune_player 25)) = 1
   \<and> next_rune (snd (Player_damage rune_player 25)) = 0
   \<and> bonus_draw (snd (Player_damage rune_player 25)) = 5"
proof -
  let ?acts = "[\<lparr>atype = ATTACK, origin = Some 1, target = None\<rparr>,
                \<lparr>atype = PASS, origin = None, target = None\<rparr>]"
  have r: "act_all keep_order attack_state ?acts
             = Inr (projr (act_all keep_order attack_state ?acts))"
    by code_simp
  have v: "next_rune (fst (players attack_state)) = 25"
    "next_rune (snd (players attack_state)) = 25"
    by code_simp+
  have q: "health rune_player = 26" "next_rune rune_player = 25" "bonus_draw rune_player = 0"
    by (simp_all add: rune_player_def new_player_def)
  show ?thesis
    using next_rune_monotone [of keep_order attack_state ?acts
        "projr (act_all keep_order attack_state ?acts)" rune_player 25 rune_player] r v q
    by simp
qed

section \<open>The positions written into the mask\<close>

lemma set_bits_ok:
  "\<forall>i\<in>set ws. i < length m0 \<Longrightarrow>
     \<exists>m. set_bits ws m0 = Inr m \<and> length m = length m0
         \<and> (\<forall>k<length m0. m ! k = (if k \<in> set ws then 1 else m0 ! k))"
proof (induction ws arbitrary: m0)
  case Nil
  then show ?case by simp
next
  case (Cons i ws)
  then have "\<forall>j\<in>set ws. j < length (m0[i := 1])" by simp
  from Cons.IH [OF this] obtain m where
    m: "set_bits ws (m0[i := 1]) = Inr m" "length m = length m0"
       "\<forall>k<length m0. m ! k = (if k \<in> set ws then 1 else (m0[i := 1]) ! k)"
    by auto
  show ?case
    using Cons.prems m by (auto simp: nth_list_update)
qed

lemma guards_set:
  "j \<in> set (map fst (filter (\<lambda>(j, e). has_ability e CHR ''G'') (enumerate 0 xs)))
     \<longleftrightarrow> j < length xs \<and> has_ability (xs ! j) CHR ''G''"
  by (auto simp: in_set_enumerate_eq image_iff)

lemma guards_empty:
  "map fst (filter (\<lambda>(j, e). has_ability e CHR ''G'') (enumerate 0 xs)) = []
     \<longleftrightarrow> \<not> (\<exists>g\<in>set xs. has_ability g CHR ''G'')"
proof -
  have "map fst (filter (\<lambda>(j, e). has_ability e CHR ''G'') (enumerate 0 xs)) = []
     \<longleftrightarrow> (\<forall>j. j \<notin> set (map fst (filter (\<lambda>(j, e). has_ability e CHR ''G'') (enumerate 0 xs))))"
    by (metis all_not_in_conv set_empty)
  also have "\<dots> \<longleftrightarrow> \<not> (\<exists>j<length xs. has_ability (xs ! j) CHR ''G'')"
    unfolding guards_set by blast
  also have "\<dots> \<longleftrightarrow> \<not> (\<exists>g\<in>set xs. has_ability g CHR ''G'')"
    by (metis in_set_conv_nth)
  finally show ?thesis .
qed

lemma concat_enumerate_iff:
  "k \<in> set (concat (map (\<lambda>(i, x). f i x) (enumerate 0 xs)))
     \<longleftrightarrow> (\<exists>i<length xs. k \<in> set (f i (xs ! i)))"
proof
  assume "k \<in> set (concat (map (\<lambda>(i, x). f i x) (enumerate 0 xs)))"
  then obtain i x where p: "(i, x) \<in> set (enumerate 0 xs)" "k \<in> set (f i x)"
    by auto
  from p(1) have "i < length xs" "xs ! i = x"
    by (simp_all add: in_set_enumerate_eq)
  with p(2) show "\<exists>i<length xs. k \<in> set (f i (xs ! i))"
    by blast
next
  assume "\<exists>i<length xs. k \<in> set (f i (xs ! i))"
  then obtain i where i: "i < length xs" "k \<in> set (f i (xs ! i))"
    by blast
  then have "(i, xs ! i) \<in> set (enumerate 0 xs)"
    by (simp add: in_set_enumerate_eq)
  then show "k \<in> set (concat (map (\<lambda>(i, x). f i x) (enumerate 0 xs)))"
    using i(2) by force
qed

lemma ex_shift: "(\<exists>j<n. k = a + j) \<longleftrightarrow> a \<le> k \<and> k < n + (a::nat)"
proof
  assume "\<exists>j<n. k = a + j"
  then show "a \<le> k \<and> k < n + a" by auto
next
  assume "a \<le> k \<and> k < n + a"
  then have "k - a < n \<and> k = a + (k - a)" by auto
  then show "\<exists>j<n. k = a + j" by blast
qed

lemma attack_writes_iff:
  "k \<in> set (attack_writes op l i c) \<longleftrightarrow>
     able_to_attack c
     \<and> (if \<exists>g\<in>set (lane_of op l). has_ability g CHR ''G''
        then \<exists>j<length (lane_of op l). has_ability (lane_of op l ! j) CHR ''G''
               \<and> k = 121 + i * 4 + 1 + j
        else k = 121 + i * 4 \<or> (\<exists>j<length (lane_of op l). k = 121 + i * 4 + 1 + j))"
proof -
  define gs where
    "gs = map fst (filter (\<lambda>(j, e). has_ability e CHR ''G'') (enumerate 0 (lane_of op l)))"
  have core: "k \<in> set (attack_writes op l i c) \<longleftrightarrow>
      able_to_attack c
      \<and> (if gs \<noteq> [] then \<exists>j\<in>set gs. k = 121 + i * 4 + 1 + j
         else k = 121 + i * 4 \<or> (\<exists>j<length (lane_of op l). k = 121 + i * 4 + 1 + j))"
    unfolding attack_writes_def Let_def gs_def [symmetric] by (auto simp: ex_shift)
  have s: "j \<in> set gs \<longleftrightarrow> j < length (lane_of op l) \<and> has_ability (lane_of op l ! j) CHR ''G''"
    for j unfolding gs_def by (rule guards_set)
  have e: "gs = [] \<longleftrightarrow> \<not> (\<exists>g\<in>set (lane_of op l). has_ability g CHR ''G'')"
    unfolding gs_def by (rule guards_empty)
  show ?thesis
    unfolding core using s e by auto
qed

lemma lane_writes_iff:
  "k \<in> set (lane_writes cp op off l) \<longleftrightarrow>
     (\<exists>i<length (lane_of cp l). k \<in> set (attack_writes op l (i + off) (lane_of cp l ! i)))"
  unfolding lane_writes_def by (rule concat_enumerate_iff)

lemma hand_writes_iff:
  "k \<in> set (hand_writes cp op) \<longleftrightarrow>
     (\<exists>i<length (hand cp). has_enough_mana (mana cp) (hand cp ! i)
         \<and> k \<in> set (check_playability cp op (card_class (hand cp ! i)) i))"
  unfolding hand_writes_def concat_enumerate_iff by (auto split: if_splits)


lemma hand_writes_bounds:
  assumes "length (hand cp) \<le> 8" "length (lane_of cp LEFT) \<le> 3" "length (lane_of cp RIGHT) \<le> 3"
    "length (lane_of op LEFT) \<le> 3" "length (lane_of op RIGHT) \<le> 3"
    and k: "k \<in> set (hand_writes cp op)"
  shows "1 \<le> k \<and> k \<le> 120"
proof -
  from k obtain i where i: "i < length (hand cp)"
    "k \<in> set (check_playability cp op (card_class (hand cp ! i)) i)"
    unfolding hand_writes_iff by blast
  have i8: "i < 8" using i(1) assms(1) by simp
  show ?thesis
    using i(2) i8 assms(2-5)
    by (auto simp: check_playability_def validate_creature_def validate_green_item_def
        validate_red_item_def validate_blue_item_def lane_of_def
        split: CardClass.splits if_splits)
qed

lemma lane_writes_bounds:
  assumes "length (lane_of cp l) \<le> 3" "length (lane_of op l) \<le> 3" "off \<le> 3"
    and k: "k \<in> set (lane_writes cp op off l)"
  shows "121 \<le> k \<and> k \<le> 144"
proof -
  from k obtain i where i: "i < length (lane_of cp l)"
    "k \<in> set (attack_writes op l (i + off) (lane_of cp l ! i))"
    unfolding lane_writes_iff by blast
  have "i < 3" using i(1) assms(1) by simp
  then show ?thesis
    using i(2) assms(2,3) unfolding attack_writes_iff
    by (auto split: if_splits)
qed

lemma mask_writes_mem:
  "k \<in> set (mask_writes st) \<longleftrightarrow>
     k = 0 \<or> k \<in> set (hand_writes (current_player st) (opposing_player st))
     \<or> k \<in> set (lane_writes (current_player st) (opposing_player st) 0 LEFT)
     \<or> k \<in> set (lane_writes (current_player st) (opposing_player st) 3 RIGHT)"
  by (auto simp: mask_writes_def Let_def)

lemma mask_writes_bound:
  assumes "wf_battle st" and "k \<in> set (mask_writes st)"
  shows "k < 145"
proof -
  note w = assms(1) [unfolded wf_battle_def]
  from assms(2) consider "k = 0"
    | "k \<in> set (hand_writes (current_player st) (opposing_player st))"
    | "k \<in> set (lane_writes (current_player st) (opposing_player st) 0 LEFT)"
    | "k \<in> set (lane_writes (current_player st) (opposing_player st) 3 RIGHT)"
    unfolding mask_writes_mem by blast
  then show ?thesis
  proof cases
    case 1 then show ?thesis by simp
  next
    case 2
    then show ?thesis using hand_writes_bounds [of "current_player st" "opposing_player st" k] w
      by simp
  next
    case 3
    then show ?thesis
      using lane_writes_bounds [of "current_player st" LEFT "opposing_player st" 0 k] w by simp
  next
    case 4
    then show ?thesis
      using lane_writes_bounds [of "current_player st" RIGHT "opposing_player st" 3 k] w by simp
  qed
qed

lemma action_mask_wf:
  assumes w: "wf_battle st" and b: "items st = Has b"
  shows "\<exists>m. action_mask st = Inr (m, st\<lparr>action_mask_cache := Has (Some m)\<rparr>)
           \<and> length m = (if b then 145 else 41)
           \<and> (\<forall>i<length m. m ! i = (if (if \<not> b \<and> i > 16 then i + 104 else i) \<in> set (mask_writes st)
                                     then 1 else 0))"
proof -
  have "\<forall>i\<in>set (mask_writes st). i < length (replicate 145 (0::int))"
    using mask_writes_bound [OF w] by simp
  from set_bits_ok [OF this] obtain m where
    m: "set_bits (mask_writes st) (replicate 145 0) = Inr m" "length m = 145"
       "\<forall>k<145. m ! k = (if k \<in> set (mask_writes st) then 1 else 0)"
    by auto
  note ww = w [unfolded wf_battle_def]
  show ?thesis
  proof (cases b)
    case True
    then show ?thesis
      using m b ww by (simp add: action_mask_def)
  next
    case False
    let ?m' = "take 17 m @ drop (length m - 24) m"
    have l: "length ?m' = 41" using m(2) by simp
    have n: "?m' ! i = (if (if i > 16 then i + 104 else i) \<in> set (mask_writes st) then 1 else 0)"
      if "i < 41" for i
    proof (cases "i < 17")
      case True
      then show ?thesis using m(2,3) by (simp add: nth_append)
    next
      case False
      then have "?m' ! i = m ! (i + 104)"
        using m(2) that by (simp add: nth_append add.commute)
      then show ?thesis using False that m(3) by simp
    qed
    have "action_mask st = Inr (?m', st\<lparr>action_mask_cache := Has (Some ?m')\<rparr>)"
      using m(1) b ww False by (simp add: action_mask_def Let_def)
    then show ?thesis
      using l n False by (intro exI [of _ ?m']) simp
  qed
qed

section \<open>Attacks, listed and validated\<close>

lemma summon_actions_type: "a \<in> set (summon_actions cp c) \<Longrightarrow> atype a = SUMMON"
  by (auto simp: summon_actions_def split: if_splits)

lemma use_actions_type: "a \<in> set (use_actions cp op c) \<Longrightarrow> atype a = USE"
  by (auto simp: use_actions_def split: CardClass.splits)

lemma attack_actions_iff:
  "a \<in> set (attack_actions cp op l) \<longleftrightarrow>
     (\<exists>f\<in>set (lane_of cp l). able_to_attack f
        \<and> (if \<exists>g\<in>set (lane_of op l). has_ability g CHR ''G''
            then \<exists>t\<in>set (lane_of op l). has_ability t CHR ''G''
                   \<and> a = \<lparr>atype = ATTACK, origin = instance_id f, target = instance_id t\<rparr>
            else a = \<lparr>atype = ATTACK, origin = instance_id f, target = None\<rparr>
                 \<or> (\<exists>t\<in>set (lane_of op l).
                       a = \<lparr>atype = ATTACK, origin = instance_id f, target = instance_id t\<rparr>)))"
proof (cases "\<exists>g\<in>set (lane_of op l). has_ability g CHR ''G''")
  case True
  then have "filter (\<lambda>c. has_ability c CHR ''G'') (lane_of op l) \<noteq> []"
    by (simp add: filter_empty_conv)
  then show ?thesis
    using True unfolding attack_actions_def Let_def by auto
next
  case False
  then have "filter (\<lambda>c. has_ability c CHR ''G'') (lane_of op l) = []"
    by (simp add: filter_empty_conv)
  then show ?thesis
    using False unfolding attack_actions_def Let_def by auto
qed

lemma attack_actions_type: "a \<in> set (attack_actions cp op l) \<Longrightarrow> atype a = ATTACK"
  unfolding attack_actions_iff by (auto split: if_splits)

lemma battle_actions_attack:
  "a \<in> set (battle_actions st) \<and> atype a = ATTACK \<longleftrightarrow>
     a \<in> set (attack_actions (current_player st) (opposing_player st) LEFT)
     \<or> a \<in> set (attack_actions (current_player st) (opposing_player st) RIGHT)"
  unfolding battle_actions_def Let_def
  by (auto dest: summon_actions_type use_actions_type attack_actions_type split: if_splits)

lemma distinct_map_eq:
  "distinct (map f xs) \<Longrightarrow> x \<in> set xs \<Longrightarrow> y \<in> set xs \<Longrightarrow> f x = f y \<Longrightarrow> x = y"
  by (meson distinct_map inj_onD)

lemma wf_board_distinct:
  "wf_battle st \<Longrightarrow> distinct (map instance_id (board st))"
  by (simp add: wf_battle_def)

lemma own_in_board: "c \<in> set (lane_of (current_player st) l) \<Longrightarrow> c \<in> set (board st)"
  by (cases l) (simp_all add: board_def)

lemma enemy_in_board: "c \<in> set (lane_of (opposing_player st) l) \<Longrightarrow> c \<in> set (board st)"
  by (cases l) (simp_all add: board_def)

lemma wf_board_id: "wf_battle st \<Longrightarrow> c \<in> set (board st) \<Longrightarrow> instance_id c \<noteq> None"
proof -
  assume w: "wf_battle st" and c: "c \<in> set (board st)"
  have "None \<notin> instance_id ` set (board st)"
    using w by (simp add: wf_battle_def)
  then show ?thesis using c by force
qed

lemma wf_board_unique:
  "wf_battle st \<Longrightarrow> x \<in> set (board st) \<Longrightarrow> y \<in> set (board st) \<Longrightarrow>
     instance_id x = instance_id y \<Longrightarrow> x = y"
  using distinct_map_eq [OF wf_board_distinct] by blast

lemma wf_lanes_apart:
  assumes w: "wf_battle st"
  shows "set (lane_of (current_player st) LEFT) \<inter> set (lane_of (current_player st) RIGHT) = {}"
proof -
  have "distinct (board st)"
    using wf_board_distinct [OF w] by (simp add: distinct_map)
  then show ?thesis
    unfolding board_def by auto
qed

lemma wf_own_unique:
  assumes w: "wf_battle st"
    and f: "f \<in> set (lane_of (current_player st) l')"
    and i: "i < length (lane_of (current_player st) l)"
    and e: "instance_id f = instance_id (lane_of (current_player st) l ! i)"
  shows "l' = l \<and> f = lane_of (current_player st) l ! i"
proof -
  have c: "lane_of (current_player st) l ! i \<in> set (lane_of (current_player st) l)"
    using i by simp
  have eq: "f = lane_of (current_player st) l ! i"
    using wf_board_unique [OF w own_in_board [OF f] own_in_board [OF c] e] .
  have "l' = l"
  proof (rule ccontr)
    assume "l' \<noteq> l"
    then have "f \<in> set (lane_of (current_player st) LEFT)
               \<and> f \<in> set (lane_of (current_player st) RIGHT)"
      using f c eq by (cases l; cases l') auto
    then show False using wf_lanes_apart [OF w] by blast
  qed
  then show ?thesis using eq by simp
qed

lemma wf_enemy_unique:
  assumes w: "wf_battle st"
    and t: "t \<in> set (lane_of (opposing_player st) l)"
    and j: "j < length (lane_of (opposing_player st) l)"
    and e: "instance_id t = instance_id (lane_of (opposing_player st) l ! j)"
  shows "t = lane_of (opposing_player st) l ! j"
proof -
  have c: "lane_of (opposing_player st) l ! j \<in> set (lane_of (opposing_player st) l)"
    using j by simp
  show ?thesis
    using wf_board_unique [OF w enemy_in_board [OF t] enemy_in_board [OF c] e] .
qed


lemma wf_available_actions:
  "wf_battle st \<Longrightarrow> fst (available_actions st) = battle_actions st"
  by (simp add: wf_battle_def available_actions_def Let_def)

lemma guarded_attacks:
  assumes w: "wf_battle st"
    and g: "\<exists>g\<in>set (lane_of (opposing_player st) l). has_ability g CHR ''G''"
    and i: "i < length (lane_of (current_player st) l)"
  shows "a \<in> set (fst (available_actions st)) \<and> atype a = ATTACK
           \<and> origin a = instance_id (lane_of (current_player st) l ! i)
         \<longleftrightarrow> able_to_attack (lane_of (current_player st) l ! i)
             \<and> (\<exists>j<length (lane_of (opposing_player st) l).
                    has_ability (lane_of (opposing_player st) l ! j) CHR ''G''
                    \<and> a = \<lparr>atype = ATTACK,
                           origin = instance_id (lane_of (current_player st) l ! i),
                           target = instance_id (lane_of (opposing_player st) l ! j)\<rparr>)"
    (is "?L \<longleftrightarrow> ?R")
proof
  let ?cp = "current_player st" and ?op = "opposing_player st"
  let ?c = "lane_of ?cp l ! i"
  assume L: ?L
  then obtain l' where a: "a \<in> set (attack_actions ?cp ?op l')"
    using battle_actions_attack [of a st] wf_available_actions [OF w]
    by (metis (full_types) Lane.exhaust)
  then obtain f where f: "f \<in> set (lane_of ?cp l')" "able_to_attack f" "origin a = instance_id f"
    unfolding attack_actions_iff by (auto split: if_splits)
  have e: "instance_id f = instance_id ?c" using f(3) L by simp
  have u: "l' = l" "f = ?c"
    using wf_own_unique [OF w f(1) i e] by simp_all
  from a g u f obtain t where t: "t \<in> set (lane_of ?op l)" "has_ability t CHR ''G''"
    "a = \<lparr>atype = ATTACK, origin = instance_id f, target = instance_id t\<rparr>"
    unfolding attack_actions_iff by auto
  from t(1) obtain j where j: "j < length (lane_of ?op l)" "lane_of ?op l ! j = t"
    by (auto simp: in_set_conv_nth)
  show ?R
    using f(2) u t j by auto
next
  let ?cp = "current_player st" and ?op = "opposing_player st"
  let ?c = "lane_of ?cp l ! i"
  assume R: ?R
  then obtain j where j: "j < length (lane_of ?op l)" "has_ability (lane_of ?op l ! j) CHR ''G''"
    "a = \<lparr>atype = ATTACK, origin = instance_id ?c, target = instance_id (lane_of ?op l ! j)\<rparr>"
    by blast
  have "a \<in> set (attack_actions ?cp ?op l)"
    unfolding attack_actions_iff
  proof (rule bexI [of _ ?c])
    show "?c \<in> set (lane_of ?cp l)" using i by simp
    have "\<exists>t\<in>set (lane_of ?op l). has_ability t CHR ''G''
            \<and> a = \<lparr>atype = ATTACK, origin = instance_id ?c, target = instance_id t\<rparr>"
      using j by (intro bexI [of _ "lane_of ?op l ! j"]) simp_all
    then show "able_to_attack ?c
        \<and> (if \<exists>g\<in>set (lane_of ?op l). has_ability g CHR ''G''
            then \<exists>t\<in>set (lane_of ?op l). has_ability t CHR ''G''
                   \<and> a = \<lparr>atype = ATTACK, origin = instance_id ?c, target = instance_id t\<rparr>
            else a = \<lparr>atype = ATTACK, origin = instance_id ?c, target = None\<rparr>
                 \<or> (\<exists>t\<in>set (lane_of ?op l).
                       a = \<lparr>atype = ATTACK, origin = instance_id ?c, target = instance_id t\<rparr>))"
      using R g by simp
  qed
  then have "a \<in> set (battle_actions st)"
    using battle_actions_attack [of a st] by (cases l) auto
  then show ?L
    using j(3) wf_available_actions [OF w] by simp
qed

lemma card_at_own [simp]:
  "card_at st (own_lane l, i) = lane_of (current_player st) l ! i"
  by (cases l) (simp_all add: card_at_def cards_at_def own_lane_def lane_of_def)

lemma card_at_enemy [simp]:
  "card_at st (enemy_lane l, j) = lane_of (opposing_player st) l ! j"
  by (cases l) (simp_all add: card_at_def cards_at_def enemy_lane_def lane_of_def)

lemma card_in_iff: "card_in x cs \<longleftrightarrow> (\<exists>y\<in>set cs. card_eq y x)"
  by (simp add: card_in_def list_ex_iff)

lemma card_in_own:
  assumes w: "wf_battle st" and i: "i < length (lane_of (current_player st) l)"
  shows "card_in (lane_of (current_player st) l ! i) (lane_of (current_player st) l') \<longleftrightarrow> l' = l"
proof
  assume "card_in (lane_of (current_player st) l ! i) (lane_of (current_player st) l')"
  then obtain y where y: "y \<in> set (lane_of (current_player st) l')"
    "instance_id y = instance_id (lane_of (current_player st) l ! i)"
    by (auto simp: card_in_iff card_eq_def)
  show "l' = l"
    using wf_own_unique [OF w y(1) i y(2)] by simp
next
  assume e: "l' = l"
  have c: "lane_of (current_player st) l ! i \<in> set (lane_of (current_player st) l)"
    using i by simp
  have "instance_id (lane_of (current_player st) l ! i) \<noteq> None"
    using wf_board_id [OF w own_in_board [OF c]] .
  then show "card_in (lane_of (current_player st) l ! i) (lane_of (current_player st) l')"
    using c e by (auto simp: card_in_iff card_eq_def)
qed

lemma card_in_guards:
  assumes w: "wf_battle st" and j: "j < length (lane_of (opposing_player st) l)"
  shows "card_in (lane_of (opposing_player st) l ! j)
           (filter (\<lambda>c. has_ability c CHR ''G'') (lane_of (opposing_player st) l))
         \<longleftrightarrow> has_ability (lane_of (opposing_player st) l ! j) CHR ''G''"
proof
  let ?t = "lane_of (opposing_player st) l ! j"
  assume "card_in ?t (filter (\<lambda>c. has_ability c CHR ''G'') (lane_of (opposing_player st) l))"
  then obtain y where y: "y \<in> set (lane_of (opposing_player st) l)" "has_ability y CHR ''G''"
    "instance_id y = instance_id ?t"
    by (auto simp: card_in_iff card_eq_def)
  have "y = ?t" using wf_enemy_unique [OF w y(1) j y(3)] .
  then show "has_ability ?t CHR ''G''" using y(2) by simp
next
  let ?t = "lane_of (opposing_player st) l ! j"
  assume h: "has_ability ?t CHR ''G''"
  have c: "?t \<in> set (lane_of (opposing_player st) l)" using j by simp
  have "instance_id ?t \<noteq> None"
    using wf_board_id [OF w enemy_in_board [OF c]] .
  then show "card_in ?t (filter (\<lambda>c. has_ability c CHR ''G'') (lane_of (opposing_player st) l))"
    using c h by (auto simp: card_in_iff card_eq_def)
qed

lemma fst_attack_finish [simp]: "fst (attack_finish st r d) = None"
  by (simp add: attack_finish_def Let_def)

lemma do_attack_guarded:
  assumes w: "wf_battle st"
    and cr: "list_all (\<lambda>c. card_class c = Creature) (board st)"
    and g: "\<exists>g\<in>set (lane_of (opposing_player st) l). has_ability g CHR ''G''"
    and i: "i < length (lane_of (current_player st) l)"
  shows "do_attack st (Some (own_lane l, i)) None = (Some MalformedActionError, st)"
    and "j < length (lane_of (opposing_player st) l) \<Longrightarrow>
           (if has_ability (lane_of (opposing_player st) l ! j) CHR ''G''
               \<and> able_to_attack (lane_of (current_player st) l ! i)
            then fst (do_attack st (Some (own_lane l, i)) (Some (enemy_lane l, j))) = None
            else do_attack st (Some (own_lane l, i)) (Some (enemy_lane l, j))
                   = (Some MalformedActionError, st))"
proof -
  let ?cp = "current_player st" and ?op = "opposing_player st"
  let ?c = "lane_of ?cp l ! i"
  have cc: "card_class ?c = Creature"
    using cr own_in_board [of ?c st l] i by (simp add: list_all_iff)
  have lane: "(if card_in ?c (lane_of ?cp LEFT) then LEFT else RIGHT) = l"
    using card_in_own [OF w i, of LEFT] by (cases l) auto
  have inl: "(\<not> card_in ?c (lane_of ?cp LEFT) \<and> \<not> card_in ?c (lane_of ?cp RIGHT)) = False"
    using card_in_own [OF w i, of l] by (cases l) auto
  have gs: "filter (\<lambda>c. has_ability c CHR ''G'') (lane_of ?op l) \<noteq> []"
    using g by (simp add: filter_empty_conv)
  show "do_attack st (Some (own_lane l, i)) None = (Some MalformedActionError, st)"
    using cc lane inl gs by (simp add: do_attack_def Let_def)
  show "(if has_ability (lane_of ?op l ! j) CHR ''G'' \<and> able_to_attack ?c
            then fst (do_attack st (Some (own_lane l, i)) (Some (enemy_lane l, j))) = None
            else do_attack st (Some (own_lane l, i)) (Some (enemy_lane l, j))
                   = (Some MalformedActionError, st))"
    if j: "j < length (lane_of ?op l)"
  proof -
    have tc: "card_class (lane_of ?op l ! j) = Creature"
      using cr enemy_in_board [of "lane_of ?op l ! j" st l] j by (simp add: list_all_iff)
    show ?thesis
    proof (cases "has_ability (lane_of ?op l ! j) CHR ''G'' \<and> able_to_attack ?c")
      case True
      then have "fst (do_attack st (Some (own_lane l, i)) (Some (enemy_lane l, j))) = None"
        using cc lane inl gs tc card_in_guards [OF w j]
        by (simp add: do_attack_def Let_def split: prod.splits)
      then show ?thesis using True by simp
    next
      case False
      then have "do_attack st (Some (own_lane l, i)) (Some (enemy_lane l, j))
                   = (Some MalformedActionError, st)"
        using cc lane inl gs tc card_in_guards [OF w j]
        by (auto simp: do_attack_def Let_def)
      then show ?thesis using False by simp
    qed
  qed
qed

lemma lane_writes_slot:
  assumes "length (lane_of cp l) \<le> 3" "length (lane_of op l) \<le> 3" "s < 4"
  shows "121 + slot * 4 + s \<in> set (lane_writes cp op off l) \<longleftrightarrow>
           off \<le> slot \<and> slot - off < length (lane_of cp l)
           \<and> able_to_attack (lane_of cp l ! (slot - off))
           \<and> (if \<exists>g\<in>set (lane_of op l). has_ability g CHR ''G''
               then 1 \<le> s \<and> s - 1 < length (lane_of op l)
                    \<and> has_ability (lane_of op l ! (s - 1)) CHR ''G''
               else s = 0 \<or> s - 1 < length (lane_of op l))"
    (is "?L \<longleftrightarrow> ?R")
proof
  assume ?L
  then obtain i where i: "i < length (lane_of cp l)"
    "121 + slot * 4 + s \<in> set (attack_writes op l (i + off) (lane_of cp l ! i))"
    unfolding lane_writes_iff by blast
  show ?R
  proof (cases "\<exists>g\<in>set (lane_of op l). has_ability g CHR ''G''")
    case True
    with i(2) obtain j where j: "able_to_attack (lane_of cp l ! i)" "j < length (lane_of op l)"
      "has_ability (lane_of op l ! j) CHR ''G''" "121 + slot * 4 + s = 121 + (i + off) * 4 + 1 + j"
      unfolding attack_writes_iff by auto
    have "j < 3" using j(2) assms(2) by simp
    then have "slot = i + off \<and> s = j + 1"
      using j(4) assms(3) by presburger
    then show ?thesis using True i(1) j by simp
  next
    case False
    with i(2) have a: "able_to_attack (lane_of cp l ! i)"
      and k: "121 + slot * 4 + s = 121 + (i + off) * 4
              \<or> (\<exists>j<length (lane_of op l). 121 + slot * 4 + s = 121 + (i + off) * 4 + 1 + j)"
      unfolding attack_writes_iff by auto
    from k have "slot = i + off \<and> (s = 0 \<or> s - 1 < length (lane_of op l))"
    proof
      assume "121 + slot * 4 + s = 121 + (i + off) * 4"
      then show ?thesis using assms(3) by presburger
    next
      assume "\<exists>j<length (lane_of op l). 121 + slot * 4 + s = 121 + (i + off) * 4 + 1 + j"
      then obtain j where j: "j < length (lane_of op l)"
        "121 + slot * 4 + s = 121 + (i + off) * 4 + 1 + j" by blast
      have "j < 3" using j(1) assms(2) by simp
      then have "slot = i + off \<and> s = j + 1"
        using j(2) assms(3) by presburger
      then show ?thesis using j(1) by simp
    qed
    then show ?thesis using False i(1) a by simp
  qed
next
  assume R: ?R
  let ?i = "slot - off"
  have e: "slot = ?i + off" using R by simp
  have "121 + slot * 4 + s \<in> set (attack_writes op l (?i + off) (lane_of cp l ! ?i))"
  proof (cases "\<exists>g\<in>set (lane_of op l). has_ability g CHR ''G''")
    case True
    with R have "s - 1 < length (lane_of op l)"
      "has_ability (lane_of op l ! (s - 1)) CHR ''G''"
      "121 + slot * 4 + s = 121 + slot * 4 + 1 + (s - 1)"
      by auto
    then show ?thesis
      unfolding attack_writes_iff e [symmetric] using True R by auto
  next
    case False
    with R have "s = 0 \<or> (s - 1 < length (lane_of op l)
        \<and> 121 + slot * 4 + s = 121 + slot * 4 + 1 + (s - 1))"
      by auto
    then show ?thesis
      unfolding attack_writes_iff e [symmetric] using False R by auto
  qed
  then show ?L
    unfolding lane_writes_iff using R by blast
qed

lemma attack_bit_iff:
  assumes w: "wf_battle st" and p: "place < 3" and s: "s < 4"
  shows "121 + (place + lane_offset l) * 4 + s \<in> set (mask_writes st) \<longleftrightarrow>
           place < length (lane_of (current_player st) l)
           \<and> able_to_attack (lane_of (current_player st) l ! place)
           \<and> (if \<exists>g\<in>set (lane_of (opposing_player st) l). has_ability g CHR ''G''
               then 1 \<le> s \<and> s - 1 < length (lane_of (opposing_player st) l)
                    \<and> has_ability (lane_of (opposing_player st) l ! (s - 1)) CHR ''G''
               else s = 0 \<or> s - 1 < length (lane_of (opposing_player st) l))"
proof -
  let ?cp = "current_player st" and ?op = "opposing_player st"
  let ?k = "121 + (place + lane_offset l) * 4 + s"
  note ww = w [unfolded wf_battle_def]
  have nh: "?k \<notin> set (hand_writes ?cp ?op)"
    using hand_writes_bounds [of ?cp ?op ?k] ww by auto
  have L: "?k \<in> set (lane_writes ?cp ?op 0 LEFT) \<longleftrightarrow>
      place + lane_offset l < length (lane_of ?cp LEFT)
      \<and> able_to_attack (lane_of ?cp LEFT ! (place + lane_offset l))
      \<and> (if \<exists>g\<in>set (lane_of ?op LEFT). has_ability g CHR ''G''
          then 1 \<le> s \<and> s - 1 < length (lane_of ?op LEFT)
               \<and> has_ability (lane_of ?op LEFT ! (s - 1)) CHR ''G''
          else s = 0 \<or> s - 1 < length (lane_of ?op LEFT))"
    using lane_writes_slot [of ?cp LEFT ?op s "place + lane_offset l" 0] ww s by simp
  have R: "?k \<in> set (lane_writes ?cp ?op 3 RIGHT) \<longleftrightarrow>
      3 \<le> place + lane_offset l \<and> place + lane_offset l - 3 < length (lane_of ?cp RIGHT)
      \<and> able_to_attack (lane_of ?cp RIGHT ! (place + lane_offset l - 3))
      \<and> (if \<exists>g\<in>set (lane_of ?op RIGHT). has_ability g CHR ''G''
          then 1 \<le> s \<and> s - 1 < length (lane_of ?op RIGHT)
               \<and> has_ability (lane_of ?op RIGHT ! (s - 1)) CHR ''G''
          else s = 0 \<or> s - 1 < length (lane_of ?op RIGHT))"
    using lane_writes_slot [of ?cp RIGHT ?op s "place + lane_offset l" 3] ww s by simp
  have m: "?k \<in> set (mask_writes st) \<longleftrightarrow>
      ?k \<in> set (lane_writes ?cp ?op 0 LEFT) \<or> ?k \<in> set (lane_writes ?cp ?op 3 RIGHT)"
    unfolding mask_writes_mem using nh by simp
  show ?thesis
  proof (cases l)
    case LEFT
    then show ?thesis
      unfolding m L R using p ww by (auto simp: lane_offset_def)
  next
    case RIGHT
    then show ?thesis
      unfolding m L R using p ww by (auto simp: lane_offset_def)
  qed
qed

section \<open>Guard\<close>

text \<open>
  C2.  In a battle state, let a lane hold an enemy creature with Guard, and take any
  creature of the player to move in that lane.  Then (1) the listed attacks of that
  creature are exactly the attacks on the Guard creatures of the lane (none at all when
  it cannot attack), and the attack with no target is not listed; (2) in the mask, the
  creature's no-target bit is 0 and its bit for the enemy at place \<open>j\<close> is 1 exactly when
  that enemy has Guard and the creature can attack; (3) \<^verbatim>\<open>_do_attack\<close> rejects the attack
  with no target and the attack on an enemy of the lane without Guard, leaving the state
  as it is, and accepts the attack on a Guard creature when the creature can attack.
\<close>

theorem guard_forces_targets:
  assumes w: "wf_battle st"
    and cr: "list_all (\<lambda>c. card_class c = Creature) (board st)"
    and g: "\<exists>g\<in>set (lane_of (opposing_player st) l). has_ability g CHR ''G''"
    and i: "i < length (lane_of (current_player st) l)"
  shows
    "(\<forall>a. (a \<in> set (fst (available_actions st)) \<and> atype a = ATTACK
            \<and> origin a = instance_id (lane_of (current_player st) l ! i))
          = (able_to_attack (lane_of (current_player st) l ! i)
             \<and> (\<exists>j<length (lane_of (opposing_player st) l).
                    has_ability (lane_of (opposing_player st) l ! j) CHR ''G''
                    \<and> a = \<lparr>atype = ATTACK,
                           origin = instance_id (lane_of (current_player st) l ! i),
                           target = instance_id (lane_of (opposing_player st) l ! j)\<rparr>)))
     \<and> \<lparr>atype = ATTACK, origin = instance_id (lane_of (current_player st) l ! i), target = None\<rparr>
         \<notin> set (fst (available_actions st))
     \<and> (\<exists>m st'. action_mask st = Inr (m, st')
           \<and> m ! ((if items st = Has True then 121 else 17) + (i + lane_offset l) * 4) = 0
           \<and> (\<forall>j<3. (m ! ((if items st = Has True then 121 else 17)
                            + (i + lane_offset l) * 4 + 1 + j) = 1)
                  = (able_to_attack (lane_of (current_player st) l ! i)
                     \<and> j < length (lane_of (opposing_player st) l)
                     \<and> has_ability (lane_of (opposing_player st) l ! j) CHR ''G'')))
     \<and> do_attack st (Some (own_lane l, i)) None = (Some MalformedActionError, st)
     \<and> (\<forall>j<length (lane_of (opposing_player st) l).
           if has_ability (lane_of (opposing_player st) l ! j) CHR ''G''
              \<and> able_to_attack (lane_of (current_player st) l ! i)
           then fst (do_attack st (Some (own_lane l, i)) (Some (enemy_lane l, j))) = None
           else do_attack st (Some (own_lane l, i)) (Some (enemy_lane l, j))
                  = (Some MalformedActionError, st))"
proof -
  let ?cp = "current_player st" and ?op = "opposing_player st"
  let ?c = "lane_of ?cp l ! i"
  note ww = w [unfolded wf_battle_def]
  have one: "\<forall>a. (a \<in> set (fst (available_actions st)) \<and> atype a = ATTACK
            \<and> origin a = instance_id ?c)
          = (able_to_attack ?c
             \<and> (\<exists>j<length (lane_of ?op l).
                    has_ability (lane_of ?op l ! j) CHR ''G''
                    \<and> a = \<lparr>atype = ATTACK, origin = instance_id ?c,
                           target = instance_id (lane_of ?op l ! j)\<rparr>))"
    using guarded_attacks [OF w g i] by blast
  have two: "\<lparr>atype = ATTACK, origin = instance_id ?c, target = None\<rparr>
         \<notin> set (fst (available_actions st))"
  proof
    assume "\<lparr>atype = ATTACK, origin = instance_id ?c, target = None\<rparr>
         \<in> set (fst (available_actions st))"
    then obtain j where j: "j < length (lane_of ?op l)"
      "instance_id (lane_of ?op l ! j) = None"
      using guarded_attacks [OF w g i, of "\<lparr>atype = ATTACK, origin = instance_id ?c, target = None\<rparr>"]
      by auto
    have "lane_of ?op l ! j \<in> set (board st)"
      using j(1) enemy_in_board [of "lane_of ?op l ! j" st l] by simp
    then show False using wf_board_id [OF w] j(2) by blast
  qed
  obtain b where b: "items st = Has b"
    using ww by (cases "items st") auto
  from action_mask_wf [OF w b] obtain m where
    m: "action_mask st = Inr (m, st\<lparr>action_mask_cache := Has (Some m)\<rparr>)"
       "length m = (if b then 145 else 41)"
       "\<forall>k<length m. m ! k = (if (if \<not> b \<and> k > 16 then k + 104 else k) \<in> set (mask_writes st)
                                then 1 else 0)"
    by blast
  let ?base = "if items st = Has True then 121 else 17 :: nat"
  have i3: "i < 3" using i ww by (cases l) auto
  have slot: "i + lane_offset l < 6" using i3 by (cases l) (auto simp: lane_offset_def)
  have bit: "(m ! (?base + (i + lane_offset l) * 4 + s) = 1)
               = (121 + (i + lane_offset l) * 4 + s \<in> set (mask_writes st))"
    and bit0: "(m ! (?base + (i + lane_offset l) * 4 + s) = 0)
               = (121 + (i + lane_offset l) * 4 + s \<notin> set (mask_writes st))"
    if "s < 4" for s
    using m(2,3) b that slot by (cases b; simp add: add.commute add.left_commute)+
  have three: "\<exists>m st'. action_mask st = Inr (m, st')
           \<and> m ! (?base + (i + lane_offset l) * 4) = 0
           \<and> (\<forall>j<3. (m ! (?base + (i + lane_offset l) * 4 + 1 + j) = 1)
                  = (able_to_attack ?c \<and> j < length (lane_of ?op l)
                     \<and> has_ability (lane_of ?op l ! j) CHR ''G''))"
  proof (intro exI conjI allI impI)
    show "action_mask st = Inr (m, st\<lparr>action_mask_cache := Has (Some m)\<rparr>)" by (rule m(1))
    show "m ! (?base + (i + lane_offset l) * 4) = 0"
      using bit0 [of 0] attack_bit_iff [OF w i3, of 0 l] g by simp
    show "(m ! (?base + (i + lane_offset l) * 4 + 1 + j) = 1)
            = (able_to_attack ?c \<and> j < length (lane_of ?op l)
               \<and> has_ability (lane_of ?op l ! j) CHR ''G'')" if "j < 3" for j
      using bit [of "1 + j"] attack_bit_iff [OF w i3, of "1 + j" l] g i that
      by (auto simp: add.assoc)
  qed
  show ?thesis
    using one two three do_attack_guarded [OF w cr g i] by blast
qed


theorem guard_forces_targets_witness:
  "wf_battle guard_state
   \<and> list_all (\<lambda>c. card_class c = Creature) (board guard_state)
   \<and> (\<exists>g\<in>set (lane_of (opposing_player guard_state) LEFT). has_ability g CHR ''G'')
   \<and> 0 < length (lane_of (current_player guard_state) LEFT)
   \<and> \<lparr>atype = ATTACK, origin = Some 1, target = None\<rparr>
       \<notin> set (fst (available_actions guard_state))
   \<and> do_attack guard_state (Some (PLAYER_LEFT_LANE, 0)) None
       = (Some MalformedActionError, guard_state)
   \<and> do_attack guard_state (Some (PLAYER_LEFT_LANE, 0)) (Some (ENEMY_LEFT_LANE, 0))
       = (Some MalformedActionError, guard_state)
   \<and> fst (do_attack guard_state (Some (PLAYER_LEFT_LANE, 0)) (Some (ENEMY_LEFT_LANE, 1))) = None"
proof -
  have w: "wf_battle guard_state" by code_simp
  have cr: "list_all (\<lambda>c. card_class c = Creature) (board guard_state)" by code_simp
  have g: "\<exists>g\<in>set (lane_of (opposing_player guard_state) LEFT). has_ability g CHR ''G''"
    by code_simp
  have i: "0 < length (lane_of (current_player guard_state) LEFT)" by code_simp
  have v: "instance_id (lane_of (current_player guard_state) LEFT ! 0) = Some 1"
    "able_to_attack (lane_of (current_player guard_state) LEFT ! 0)"
    "length (lane_of (opposing_player guard_state) LEFT) = 2"
    "\<not> has_ability (lane_of (opposing_player guard_state) LEFT ! 0) CHR ''G''"
    "has_ability (lane_of (opposing_player guard_state) LEFT ! 1) CHR ''G''"
    by code_simp+
  note t = guard_forces_targets [OF w cr g i]
  from t have a: "\<lparr>atype = ATTACK, origin = Some 1, target = None\<rparr>
       \<notin> set (fst (available_actions guard_state))"
    using v(1) by simp
  from t have n: "do_attack guard_state (Some (PLAYER_LEFT_LANE, 0)) None
       = (Some MalformedActionError, guard_state)"
    by (simp add: own_lane_def)
  from t have d: "\<forall>j<length (lane_of (opposing_player guard_state) LEFT).
           if has_ability (lane_of (opposing_player guard_state) LEFT ! j) CHR ''G''
              \<and> able_to_attack (lane_of (current_player guard_state) LEFT ! 0)
           then fst (do_attack guard_state (Some (own_lane LEFT, 0)) (Some (enemy_lane LEFT, j))) = None
           else do_attack guard_state (Some (own_lane LEFT, 0)) (Some (enemy_lane LEFT, j))
                  = (Some MalformedActionError, guard_state)"
    by blast
  have d0: "do_attack guard_state (Some (PLAYER_LEFT_LANE, 0)) (Some (ENEMY_LEFT_LANE, 0))
       = (Some MalformedActionError, guard_state)"
    using d [rule_format, of 0] v by (simp add: own_lane_def enemy_lane_def)
  have d1: "fst (do_attack guard_state (Some (PLAYER_LEFT_LANE, 0)) (Some (ENEMY_LEFT_LANE, 1))) = None"
    using d [rule_format, of 1] v by (simp add: own_lane_def enemy_lane_def)
  show ?thesis
    using w cr g i a n d0 d1 by blast
qed

section \<open>The hand positions of the mask\<close>

lemma check_playability_iff:
  "k \<in> set (check_playability cp op cls i) \<longleftrightarrow>
     (case cls of
        Creature \<Rightarrow>
          (k = 1 + i * 2 \<and> length (lane_of cp LEFT) < 3)
          \<or> (k = 2 + i * 2 \<and> length (lane_of cp RIGHT) < 3)
      | GreenItem \<Rightarrow>
          (18 + i * 13 \<le> k \<and> k < length (lane_of cp LEFT) + (18 + i * 13))
          \<or> (21 + i * 13 \<le> k \<and> k < length (lane_of cp RIGHT) + (21 + i * 13))
      | RedItem \<Rightarrow>
          (24 + i * 13 \<le> k \<and> k < length (lane_of op LEFT) + (24 + i * 13))
          \<or> (27 + i * 13 \<le> k \<and> k < length (lane_of op RIGHT) + (27 + i * 13))
      | BlueItem \<Rightarrow>
          k = 17 + i * 13
          \<or> (24 + i * 13 \<le> k \<and> k < length (lane_of op LEFT) + (24 + i * 13))
          \<or> (27 + i * 13 \<le> k \<and> k < length (lane_of op RIGHT) + (27 + i * 13)))"
  by (cases cls)
     (auto simp: check_playability_def validate_creature_def validate_green_item_def
        validate_red_item_def validate_blue_item_def lane_of_def)

lemma summon_pos:
  fixes slot ln i :: nat
  assumes "ln < 2"
  shows "(1 + slot * 2 + ln = 1 + i * 2) = (i = slot \<and> ln = 0)"
    and "(1 + slot * 2 + ln = 2 + i * 2) = (i = slot \<and> ln = 1)"
proof -
  have "ln = 0 \<or> ln = 1" using assms by linarith
  then show "(1 + slot * 2 + ln = 1 + i * 2) = (i = slot \<and> ln = 0)"
    and "(1 + slot * 2 + ln = 2 + i * 2) = (i = slot \<and> ln = 1)"
    by (auto, presburger+)
qed

lemma item_pos:
  fixes slot sub i n c :: nat
  assumes "sub < 13" "n \<le> 3" "c + 3 \<le> 13"
  shows "(17 + c + i * 13 \<le> 17 + slot * 13 + sub \<and> 17 + slot * 13 + sub < n + (17 + c + i * 13))
           = (i = slot \<and> c \<le> sub \<and> sub - c < n)"
proof (cases "i = slot")
  case True
  then show ?thesis by auto
next
  case False
  then consider "i + 1 \<le> slot" | "slot + 1 \<le> i" by linarith
  then have "\<not> (17 + c + i * 13 \<le> 17 + slot * 13 + sub
                \<and> 17 + slot * 13 + sub < n + (17 + c + i * 13))"
  proof cases
    case 1
    then have "i * 13 + 13 \<le> slot * 13" by simp
    then show ?thesis using assms by linarith
  next
    case 2
    then have "slot * 13 + 13 \<le> i * 13" by simp
    then show ?thesis using assms by linarith
  qed
  then show ?thesis using False by simp
qed

lemma item_pos0:
  fixes slot sub i :: nat
  assumes "sub < 13"
  shows "(17 + slot * 13 + sub = 17 + i * 13) = (i = slot \<and> sub = 0)"
proof (cases "i = slot")
  case True
  then show ?thesis by auto
next
  case False
  then consider "i + 1 \<le> slot" | "slot + 1 \<le> i" by linarith
  then have "17 + slot * 13 + sub \<noteq> 17 + i * 13"
  proof cases
    case 1
    then have "i * 13 + 13 \<le> slot * 13" by simp
    then show ?thesis by linarith
  next
    case 2
    then have "slot * 13 + 13 \<le> i * 13" by simp
    then show ?thesis using assms by linarith
  qed
  then show ?thesis using False by simp
qed

lemma hand_bit_summon:
  assumes w: "wf_battle st" and sl: "slot < 8" and ln: "ln < 2"
  shows "1 + slot * 2 + ln \<in> set (mask_writes st) \<longleftrightarrow>
           slot < length (hand (current_player st))
           \<and> has_enough_mana (mana (current_player st)) (hand (current_player st) ! slot)
           \<and> card_class (hand (current_player st) ! slot) = Creature
           \<and> length (lane_of (current_player st) (if ln = 0 then LEFT else RIGHT)) < 3"
    (is "?L \<longleftrightarrow> ?R")
proof -
  let ?cp = "current_player st" and ?op = "opposing_player st"
  let ?k = "1 + slot * 2 + ln"
  note ww = w [unfolded wf_battle_def]
  have k17: "?k < 17" using sl ln by linarith
  have m: "?k \<in> set (mask_writes st) \<longleftrightarrow> ?k \<in> set (hand_writes ?cp ?op)"
    unfolding mask_writes_mem
    using lane_writes_bounds [of ?cp LEFT ?op 0 ?k] lane_writes_bounds [of ?cp RIGHT ?op 3 ?k]
      ww k17 by auto
  have l01: "ln = 0 \<or> ln = 1" using ln by linarith
  have c: "?k \<in> set (check_playability ?cp ?op cls i) \<longleftrightarrow>
      i = slot \<and> cls = Creature \<and> length (lane_of ?cp (if ln = 0 then LEFT else RIGHT)) < 3"
    for i cls
  proof (cases cls)
    case Creature
    then show ?thesis
      unfolding check_playability_iff using summon_pos [OF ln, of slot i] l01 by auto
  next
    case GreenItem
    then show ?thesis
      unfolding check_playability_iff using k17 by auto
  next
    case RedItem
    then show ?thesis
      unfolding check_playability_iff using k17 by auto
  next
    case BlueItem
    then show ?thesis
      unfolding check_playability_iff using k17 by auto
  qed
  show ?thesis
    unfolding m hand_writes_iff c by auto
qed

lemma hand_bit_item:
  assumes w: "wf_battle st" and sl: "slot < 8" and sb: "sub < 13"
  shows "17 + slot * 13 + sub \<in> set (mask_writes st) \<longleftrightarrow>
           slot < length (hand (current_player st))
           \<and> has_enough_mana (mana (current_player st)) (hand (current_player st) ! slot)
           \<and> (case card_class (hand (current_player st) ! slot) of
                Creature \<Rightarrow> False
              | GreenItem \<Rightarrow>
                  (1 \<le> sub \<and> sub - 1 < length (lane_of (current_player st) LEFT))
                  \<or> (4 \<le> sub \<and> sub - 4 < length (lane_of (current_player st) RIGHT))
              | RedItem \<Rightarrow>
                  (7 \<le> sub \<and> sub - 7 < length (lane_of (opposing_player st) LEFT))
                  \<or> (10 \<le> sub \<and> sub - 10 < length (lane_of (opposing_player st) RIGHT))
              | BlueItem \<Rightarrow>
                  sub = 0
                  \<or> (7 \<le> sub \<and> sub - 7 < length (lane_of (opposing_player st) LEFT))
                  \<or> (10 \<le> sub \<and> sub - 10 < length (lane_of (opposing_player st) RIGHT)))"
    (is "?L \<longleftrightarrow> ?R")
proof -
  let ?cp = "current_player st" and ?op = "opposing_player st"
  let ?k = "17 + slot * 13 + sub"
  note ww = w [unfolded wf_battle_def]
  have k: "17 \<le> ?k" "?k < 121" using sl sb by linarith+
  have m: "?k \<in> set (mask_writes st) \<longleftrightarrow> ?k \<in> set (hand_writes ?cp ?op)"
    unfolding mask_writes_mem
    using lane_writes_bounds [of ?cp LEFT ?op 0 ?k] lane_writes_bounds [of ?cp RIGHT ?op 3 ?k]
      ww k by auto
  have n: "length (lane_of ?cp LEFT) \<le> 3" "length (lane_of ?cp RIGHT) \<le> 3"
    "length (lane_of ?op LEFT) \<le> 3" "length (lane_of ?op RIGHT) \<le> 3"
    using ww by simp_all
  have p1: "(18 + i * 13 \<le> ?k \<and> ?k < length (lane_of ?cp LEFT) + (18 + i * 13))
              = (i = slot \<and> 1 \<le> sub \<and> sub - 1 < length (lane_of ?cp LEFT))" for i
    using item_pos [OF sb n(1), of 1 i slot] by simp
  have p4: "(21 + i * 13 \<le> ?k \<and> ?k < length (lane_of ?cp RIGHT) + (21 + i * 13))
              = (i = slot \<and> 4 \<le> sub \<and> sub - 4 < length (lane_of ?cp RIGHT))" for i
    using item_pos [OF sb n(2), of 4 i slot] by simp
  have p7: "(24 + i * 13 \<le> ?k \<and> ?k < length (lane_of ?op LEFT) + (24 + i * 13))
              = (i = slot \<and> 7 \<le> sub \<and> sub - 7 < length (lane_of ?op LEFT))" for i
    using item_pos [OF sb n(3), of 7 i slot] by simp
  have p10: "(27 + i * 13 \<le> ?k \<and> ?k < length (lane_of ?op RIGHT) + (27 + i * 13))
              = (i = slot \<and> 10 \<le> sub \<and> sub - 10 < length (lane_of ?op RIGHT))" for i
    using item_pos [OF sb n(4), of 10 i slot] by simp
  have p0: "(?k = 17 + i * 13) = (i = slot \<and> sub = 0)" for i
    using item_pos0 [OF sb, of slot i] by simp
  have pc: "?k \<noteq> 1 + i * 2" "?k \<noteq> 2 + i * 2" if "i < 8" for i
    using that k by linarith+
  have c: "?k \<in> set (check_playability ?cp ?op cls i) \<longleftrightarrow>
      i = slot
      \<and> (case cls of
            Creature \<Rightarrow> False
          | GreenItem \<Rightarrow>
              (1 \<le> sub \<and> sub - 1 < length (lane_of ?cp LEFT))
              \<or> (4 \<le> sub \<and> sub - 4 < length (lane_of ?cp RIGHT))
          | RedItem \<Rightarrow>
              (7 \<le> sub \<and> sub - 7 < length (lane_of ?op LEFT))
              \<or> (10 \<le> sub \<and> sub - 10 < length (lane_of ?op RIGHT))
          | BlueItem \<Rightarrow>
              sub = 0
              \<or> (7 \<le> sub \<and> sub - 7 < length (lane_of ?op LEFT))
              \<or> (10 \<le> sub \<and> sub - 10 < length (lane_of ?op RIGHT)))"
    if "i < 8" for i cls
    unfolding check_playability_iff p1 p4 p7 p10 p0
    using pc [OF that] by (cases cls) auto
  show ?thesis
  proof
    assume ?L
    then obtain i where i: "i < length (hand ?cp)" "has_enough_mana (mana ?cp) (hand ?cp ! i)"
      "?k \<in> set (check_playability ?cp ?op (card_class (hand ?cp ! i)) i)"
      unfolding m hand_writes_iff by blast
    have "i < 8" using i(1) ww by simp
    from c [OF this] i show ?R by auto
  next
    assume R: ?R
    then have "?k \<in> set (check_playability ?cp ?op (card_class (hand ?cp ! slot)) slot)"
      using c [OF sl, of "card_class (hand ?cp ! slot)"] by simp
    then show ?L
      unfolding m hand_writes_iff using R by blast
  qed
qed

end
